theory Spec2Isabelle
  imports Main "HOL-Library.Sublist"
begin

section \<open>JavaScript values as the extension sees them\<close>

text \<open>
  The extension is TypeScript, but every value that crosses the service boundary is
  whatever JSON the other side sent: the declared interfaces are erased at run time.
  The model therefore works on untyped JSON values, and a property read on
  \<open>undefined\<close> or \<open>null\<close> is a \<open>TypeError\<close>, as in the engine.

  Numbers are modelled as integers (limits, counts and ports are; a score is only
  passed through), and an integer is printed with all its digits, as the engine
  prints the integers it holds exactly (those below \<open>2^53\<close> in size). Strings are byte strings in UTF-8, so a
  character outside ASCII is more than one \<open>char\<close>; where the engine counts a
  string in UTF-16 code units, the units are counted off the bytes. An object is the
  association list of its own properties, read with \<open>map_of\<close>. The values are
  those of JSON: no property is a function, and an object is taken to have no own
  property named \<open>toString\<close> (the engine cannot convert an object that has one to a
  string, and throws a \<open>TypeError\<close> where this model prints the object).
\<close>

datatype json =
    JUndefined
  | JNull
  | JBool bool
  | JNum int
  | JStr string
  | JArr "json list"
  | JObj "(string \<times> json) list"

datatype jsError = Error string | TypeError string

definition sq :: string where "sq = [CHR 0x27]"
definition dq :: string where "dq = [CHR 0x22]"
definition nl :: string where "nl = [CHR 0x0A]"

definition digitChar :: "nat \<Rightarrow> char" where
  "digitChar d = ''0123456789'' ! d"

fun showNat :: "nat \<Rightarrow> string" where
  "showNat n = (if n < 10 then [digitChar n]
                else showNat (n div 10) @ [digitChar (n mod 10)])"

declare showNat.simps [simp del]

definition showInt :: "int \<Rightarrow> string" where
  "showInt i = (if i < 0 then CHR ''-'' # showNat (nat (- i)) else showNat (nat i))"

fun joinWith :: "string \<Rightarrow> string list \<Rightarrow> string" where
  "joinWith sep [] = []"
| "joinWith sep [x] = x"
| "joinWith sep (x # y # ys) = x @ sep @ joinWith sep (y # ys)"

text \<open>
  String conversion, as a template literal \<open>`${v}`\<close> performs it. An object goes
  through \<open>Object.prototype.toString\<close>, an array through \<open>join\<close>.
\<close>

fun toStr :: "json \<Rightarrow> string" where
  "toStr JUndefined = ''undefined''"
| "toStr JNull = ''null''"
| "toStr (JBool b) = (if b then ''true'' else ''false'')"
| "toStr (JNum n) = showInt n"
| "toStr (JStr s) = s"
| "toStr (JArr xs) =
     joinWith '','' (map (\<lambda>x. if x = JUndefined \<or> x = JNull then [] else toStr x) xs)"
| "toStr (JObj kvs) = ''[object Object]''"

definition errStr :: "jsError \<Rightarrow> string" where
  "errStr e = (case e of Error m \<Rightarrow> ''Error: '' @ m | TypeError m \<Rightarrow> ''TypeError: '' @ m)"

text \<open>Truthiness, \<open>||\<close>, \<open>??\<close> and \<open>===\<close>.\<close>

fun truthy :: "json \<Rightarrow> bool" where
  "truthy JUndefined = False"
| "truthy JNull = False"
| "truthy (JBool b) = b"
| "truthy (JNum n) = (n \<noteq> 0)"
| "truthy (JStr s) = (s \<noteq> [])"
| "truthy (JArr xs) = True"
| "truthy (JObj kvs) = True"

definition logicalOr :: "json \<Rightarrow> json \<Rightarrow> json" where
  "logicalOr v d = (if truthy v then v else d)"

definition nullish :: "json \<Rightarrow> bool" where
  "nullish v = (v = JUndefined \<or> v = JNull)"

definition nullishOr :: "json \<Rightarrow> json \<Rightarrow> json" where
  "nullishOr v d = (if nullish v then d else v)"

text \<open>
  Strict equality compares primitives by value. Arrays and objects are compared by
  identity; two of them that reached the code by different routes are never the same
  object.
\<close>

fun strictEq :: "json \<Rightarrow> json \<Rightarrow> bool" where
  "strictEq JUndefined JUndefined = True"
| "strictEq JNull JNull = True"
| "strictEq (JBool a) (JBool b) = (a = b)"
| "strictEq (JNum a) (JNum b) = (a = b)"
| "strictEq (JStr a) (JStr b) = (a = b)"
| "strictEq _ _ = False"

text \<open>
  The engine counts a string in UTF-16 code units. A byte of a UTF-8 string that
  continues a character (\<open>0x80\<close> to \<open>0xBF\<close>) starts no unit, the first byte of a
  four-byte character (\<open>0xF0\<close> and above; the character is outside the basic plane
  and takes a surrogate pair) starts two, and any other byte starts one.
  \<open>codePoints\<close> cuts a string into its characters, which is what iterating over a
  string yields. \<open>takeUnits n\<close> keeps the characters that begin within the first
  \<open>n\<close> units.
\<close>

definition isCont :: "char \<Rightarrow> bool" where
  "isCont c = (128 \<le> (of_char c :: nat) \<and> (of_char c :: nat) < 192)"

definition unitsAt :: "char \<Rightarrow> nat" where
  "unitsAt c = (if isCont c then 0 else if 240 \<le> (of_char c :: nat) then 2 else 1)"

definition strLength :: "string \<Rightarrow> nat" where
  "strLength s = sum_list (map unitsAt s)"

function codePoints :: "string \<Rightarrow> string list" where
  "codePoints [] = []"
| "codePoints (c # cs) = (c # takeWhile isCont cs) # codePoints (dropWhile isCont cs)"
  by pat_completeness auto
termination
  by (relation "measure length") (simp_all add: length_dropWhile_le less_Suc_eq_le)

fun takeUnits :: "nat \<Rightarrow> string list \<Rightarrow> string list" where
  "takeUnits n [] = []"
| "takeUnits n (p # ps) = (if n = 0 then [] else p # takeUnits (n - strLength p) ps)"

text \<open>
  A property read \<open>v.k\<close>. The names the code reads are data fields and \<open>length\<close>;
  none of them is inherited from a prototype. The message of a \<open>TypeError\<close> follows
  the wording of V8, without the source text V8 quotes in some of them; no property
  below depends on the wording.
\<close>

fun getProp :: "json \<Rightarrow> string \<Rightarrow> jsError + json" where
  "getProp JUndefined k =
     Inl (TypeError (''Cannot read properties of undefined (reading '' @ sq @ k @ sq @ '')''))"
| "getProp JNull k =
     Inl (TypeError (''Cannot read properties of null (reading '' @ sq @ k @ sq @ '')''))"
| "getProp (JObj kvs) k = Inr (case map_of kvs k of None \<Rightarrow> JUndefined | Some v \<Rightarrow> v)"
| "getProp (JArr xs) k = Inr (if k = ''length'' then JNum (int (length xs)) else JUndefined)"
| "getProp (JStr s) k = Inr (if k = ''length'' then JNum (int (strLength s)) else JUndefined)"
| "getProp (JBool b) k = Inr JUndefined"
| "getProp (JNum n) k = Inr JUndefined"

text \<open>
  \<open>v[0]\<close>, \<open>v.slice(0, n)\<close>, and what \<open>for (const x of v)\<close> iterates over. On a
  string \<open>v[0]\<close> is the first code unit and \<open>slice\<close> keeps the first \<open>n\<close> units.
  Where that cuts a character outside the basic plane in two, the engine is left
  with half a surrogate pair, which has no UTF-8 form: the whole character stands
  for it here.
\<close>

fun index0 :: "json \<Rightarrow> jsError + json" where
  "index0 JUndefined = Inl (TypeError ''Cannot read properties of undefined (reading 0)'')"
| "index0 JNull = Inl (TypeError ''Cannot read properties of null (reading 0)'')"
| "index0 (JArr xs) = Inr (case xs of [] \<Rightarrow> JUndefined | x # _ \<Rightarrow> x)"
| "index0 (JStr s) = Inr (case codePoints s of [] \<Rightarrow> JUndefined | p # _ \<Rightarrow> JStr p)"
| "index0 (JObj kvs) = Inr (case map_of kvs ''0'' of None \<Rightarrow> JUndefined | Some v \<Rightarrow> v)"
| "index0 (JBool b) = Inr JUndefined"
| "index0 (JNum n) = Inr JUndefined"

fun sliceFrom0 :: "json \<Rightarrow> nat \<Rightarrow> jsError + json" where
  "sliceFrom0 JUndefined n =
     Inl (TypeError (''Cannot read properties of undefined (reading '' @ sq @ ''slice'' @ sq @ '')''))"
| "sliceFrom0 JNull n =
     Inl (TypeError (''Cannot read properties of null (reading '' @ sq @ ''slice'' @ sq @ '')''))"
| "sliceFrom0 (JArr xs) n = Inr (JArr (take n xs))"
| "sliceFrom0 (JStr s) n = Inr (JStr (concat (takeUnits n (codePoints s))))"
| "sliceFrom0 v n = Inl (TypeError ''slice is not a function'')"

fun iterate :: "json \<Rightarrow> jsError + json list" where
  "iterate (JArr xs) = Inr xs"
| "iterate (JStr s) = Inr (map JStr (codePoints s))"
| "iterate v = Inl (TypeError (toStr v @ '' is not iterable''))"

text \<open>
  \<open>v > 0\<close>. On a number it is the comparison. On a string the engine first parses
  the string as a floating-point literal; that parser is not part of this
  repository, so whether a string converts to a positive number is a parameter
  \<open>pos\<close> of the model. An array converts through its string, an object to \<open>NaN\<close>.
\<close>

fun gtZero :: "(string \<Rightarrow> bool) \<Rightarrow> json \<Rightarrow> bool" where
  "gtZero pos JUndefined = False"
| "gtZero pos JNull = False"
| "gtZero pos (JBool b) = b"
| "gtZero pos (JNum n) = (0 < n)"
| "gtZero pos (JStr s) = pos s"
| "gtZero pos (JArr xs) = pos (toStr (JArr xs))"
| "gtZero pos (JObj kvs) = False"

text \<open>The test \<open>v && v.length > 0\<close> that guards the loops over props and examples.\<close>

definition nonEmpty :: "(string \<Rightarrow> bool) \<Rightarrow> json \<Rightarrow> bool" where
  "nonEmpty pos v =
     (truthy v \<and> (case getProp v ''length'' of Inl e \<Rightarrow> False | Inr n \<Rightarrow> gtZero pos n))"

text \<open>
  What \<open>JSON.stringify\<close> puts on the wire: a property whose value is \<open>undefined\<close>
  is left out, and \<open>undefined\<close> inside an array is sent as \<open>null\<close>.
\<close>

fun wire :: "json \<Rightarrow> json" where
  "wire (JArr xs) = JArr (map (\<lambda>x. if x = JUndefined then JNull else wire x) xs)"
| "wire (JObj kvs) =
     JObj (map (\<lambda>(k, v). (k, wire v)) (filter (\<lambda>(k, v). v \<noteq> JUndefined) kvs))"
| "wire v = v"

section \<open>The extension host: state and effects\<close>

text \<open>
  \<open>async\<close> functions are run to completion one after another, so an effectful
  function is a state transformer that returns either the thrown error or the
  value. The state holds the module-level variable \<open>ragClient\<close> of
  \<open>rag-client/client.ts\<close>, the requests sent so far, the markdown written to the
  chat response stream, whether the sidebar provider has a view (\<open>_view\<close>, set when
  the sidebar is first shown), the messages posted to the webview of that view and
  the notifications shown. Writing to the chat stream, posting to the webview and
  showing a notification are taken not to throw. Output to \<open>console.error\<close> is not
  modelled.
\<close>

datatype notice = InformationMessage string | ErrorMessage string

record RAGClient =
  baseUrl :: string

datatype httpMethod = GET | POST | PUT | DELETE

record httpRequest =
  reqMethod :: httpMethod
  reqUrl :: string
  reqBody :: json

record host =
  ragClient :: "RAGClient option"
  requests :: "httpRequest list"
  chat :: "string list"
  view :: bool
  posted :: "json list"
  notices :: "notice list"

type_synonym ('s, 'a) eff = "'s \<Rightarrow> (jsError + 'a) \<times> 's"

type_synonym 'a act = "(host, 'a) eff"

definition ret :: "'a \<Rightarrow> ('s, 'a) eff" where
  "ret v h = (Inr v, h)"

definition throw :: "jsError \<Rightarrow> ('s, 'a) eff" where
  "throw e h = (Inl e, h)"

definition lift :: "jsError + 'a \<Rightarrow> ('s, 'a) eff" where
  "lift r h = (r, h)"

definition bind :: "('s, 'a) eff \<Rightarrow> ('a \<Rightarrow> ('s, 'b) eff) \<Rightarrow> ('s, 'b) eff" where
  "bind m f h = (case m h of (Inl e, h') \<Rightarrow> (Inl e, h') | (Inr v, h') \<Rightarrow> f v h')"

definition tryCatch :: "('s, 'a) eff \<Rightarrow> (jsError \<Rightarrow> ('s, 'a) eff) \<Rightarrow> ('s, 'a) eff" where
  "tryCatch m c h = (case m h of (Inl e, h') \<Rightarrow> c e h' | (Inr v, h') \<Rightarrow> (Inr v, h'))"

fun forEach :: "('a \<Rightarrow> ('s, unit) eff) \<Rightarrow> 'a list \<Rightarrow> ('s, unit) eff" where
  "forEach f [] = ret ()"
| "forEach f (x # xs) = bind (f x) (\<lambda>u. forEach f xs)"

definition forOf :: "json \<Rightarrow> (json \<Rightarrow> ('s, unit) eff) \<Rightarrow> ('s, unit) eff" where
  "forOf v f = bind (lift (iterate v)) (forEach f)"

definition bindE :: "jsError + 'a \<Rightarrow> ('a \<Rightarrow> jsError + 'b) \<Rightarrow> jsError + 'b" where
  "bindE r f = (case r of Inl e \<Rightarrow> Inl e | Inr v \<Rightarrow> f v)"

text \<open>
  \<open>xs.map(f)\<close> and \<open>xs.filter(p)\<close> where the callback may throw: only an array
  has these methods.
\<close>

fun mapE :: "('a \<Rightarrow> jsError + 'b) \<Rightarrow> 'a list \<Rightarrow> jsError + 'b list" where
  "mapE f [] = Inr []"
| "mapE f (x # xs) =
     (case f x of Inl e \<Rightarrow> Inl e
      | Inr y \<Rightarrow> (case mapE f xs of Inl e \<Rightarrow> Inl e | Inr ys \<Rightarrow> Inr (y # ys)))"

fun arrayMap :: "json \<Rightarrow> (json \<Rightarrow> jsError + json) \<Rightarrow> jsError + json" where
  "arrayMap JUndefined f =
     Inl (TypeError (''Cannot read properties of undefined (reading '' @ sq @ ''map'' @ sq @ '')''))"
| "arrayMap JNull f =
     Inl (TypeError (''Cannot read properties of null (reading '' @ sq @ ''map'' @ sq @ '')''))"
| "arrayMap (JArr xs) f = (case mapE f xs of Inl e \<Rightarrow> Inl e | Inr ys \<Rightarrow> Inr (JArr ys))"
| "arrayMap v f = Inl (TypeError ''map is not a function'')"

fun filterE :: "('a \<Rightarrow> jsError + bool) \<Rightarrow> 'a list \<Rightarrow> jsError + 'a list" where
  "filterE p [] = Inr []"
| "filterE p (x # xs) =
     (case p x of Inl e \<Rightarrow> Inl e
      | Inr b \<Rightarrow> (case filterE p xs of Inl e \<Rightarrow> Inl e
                  | Inr ys \<Rightarrow> Inr (if b then x # ys else ys)))"

fun arrayFilter :: "json \<Rightarrow> (json \<Rightarrow> jsError + bool) \<Rightarrow> jsError + json" where
  "arrayFilter JUndefined p =
     Inl (TypeError (''Cannot read properties of undefined (reading '' @ sq @ ''filter'' @ sq @ '')''))"
| "arrayFilter JNull p =
     Inl (TypeError (''Cannot read properties of null (reading '' @ sq @ ''filter'' @ sq @ '')''))"
| "arrayFilter (JArr xs) p = (case filterE p xs of Inl e \<Rightarrow> Inl e | Inr ys \<Rightarrow> Inr (JArr ys))"
| "arrayFilter v p = Inl (TypeError ''filter is not a function'')"

section \<open>rag-client/client.ts\<close>

text \<open>
  The RAG service is any function from the requests it has seen and the request it
  receives to what axios then does: \<open>Inl\<close> when axios rejects (no connection,
  timeout, a status outside 2xx), \<open>Inr d\<close> when it resolves with \<open>response.data = d\<close>.
\<close>

type_synonym service = "httpRequest list \<Rightarrow> httpRequest \<Rightarrow> jsError + json"

definition newRAGClient :: "int \<Rightarrow> RAGClient" where
  "newRAGClient port = \<lparr>baseUrl = ''http://localhost:'' @ showInt port\<rparr>"

text \<open>
  A request through the axios instance of the client. \<open>reqUrl\<close> is the address as
  the code hands it to axios, base address and path put together. The
  percent-encoding that the transport then applies to the path (a space in a
  component name travels as \<open>%20\<close>) is on the far side of this interface, within
  the service.
\<close>

definition axios :: "service \<Rightarrow> RAGClient \<Rightarrow> httpMethod \<Rightarrow> string \<Rightarrow> json \<Rightarrow> json act" where
  "axios srv c m path body h =
     (let rq = \<lparr>reqMethod = m, reqUrl = baseUrl c @ path, reqBody = wire body\<rparr>
      in (srv (requests h) rq, h\<lparr>requests := requests h @ [rq]\<rparr>))"

definition healthCheck :: "service \<Rightarrow> RAGClient \<Rightarrow> bool act" where
  "healthCheck srv c =
     tryCatch
       (bind (axios srv c GET ''/api/health'' JUndefined) (\<lambda>data.
        bind (lift (getProp data ''status'')) (\<lambda>status.
        ret (strictEq status (JStr ''healthy'')))))
       (\<lambda>error. ret False)"

definition searchComponents :: "service \<Rightarrow> RAGClient \<Rightarrow> json \<Rightarrow> json act" where
  "searchComponents srv c request =
     tryCatch (axios srv c POST ''/api/search'' request)
       (\<lambda>error. throw (Error ''Failed to search components''))"

definition suggestComponents :: "service \<Rightarrow> RAGClient \<Rightarrow> json \<Rightarrow> json \<Rightarrow> json act" where
  "suggestComponents srv c query limit0 =
     (let limit = (if limit0 = JUndefined then JNum 5 else limit0) in
      tryCatch
        (axios srv c POST ''/api/search/suggest'' (JObj [(''query'', query), (''limit'', limit)]))
        (\<lambda>error. throw (Error ''Failed to suggest components'')))"

definition getAllComponents :: "service \<Rightarrow> RAGClient \<Rightarrow> json act" where
  "getAllComponents srv c =
     tryCatch (axios srv c GET ''/api/components'' JUndefined)
       (\<lambda>error. throw (Error ''Failed to get components''))"

definition getComponentsByName :: "service \<Rightarrow> RAGClient \<Rightarrow> json \<Rightarrow> json act" where
  "getComponentsByName srv c name =
     tryCatch (axios srv c GET (''/api/components/name/'' @ toStr name) JUndefined)
       (\<lambda>error. throw (Error ''Failed to get components by name''))"

definition deleteComponent :: "service \<Rightarrow> RAGClient \<Rightarrow> json \<Rightarrow> unit act" where
  "deleteComponent srv c componentId =
     tryCatch
       (bind (axios srv c DELETE (''/api/components/'' @ toStr componentId) JUndefined)
          (\<lambda>r. ret ()))
       (\<lambda>error. throw (Error ''Failed to delete component''))"

text \<open>The object \<open>pythonRequest\<close> that \<open>scanFolder\<close> builds from the four fields it reads.\<close>

definition pythonRequest :: "json \<Rightarrow> json \<Rightarrow> json \<Rightarrow> json \<Rightarrow> json" where
  "pythonRequest folderPath includeStorybooks includeTests recursive =
     JObj [(''folder_path'', folderPath),
           (''include_storybooks'', nullishOr includeStorybooks (JBool True)),
           (''include_tests'', nullishOr includeTests (JBool False)),
           (''recursive'', nullishOr recursive (JBool True))]"

definition scanFolder :: "service \<Rightarrow> RAGClient \<Rightarrow> json \<Rightarrow> json act" where
  "scanFolder srv c request =
     tryCatch
       (bind (lift (getProp request ''folderPath'')) (\<lambda>folderPath.
        bind (lift (getProp request ''includeStorybooks'')) (\<lambda>includeStorybooks.
        bind (lift (getProp request ''includeTests'')) (\<lambda>includeTests.
        bind (lift (getProp request ''recursive'')) (\<lambda>recursive.
        bind (axios srv c POST ''/api/scan''
                (pythonRequest folderPath includeStorybooks includeTests recursive)) (\<lambda>data.
        bind (lift (getProp data ''components_found'')) (\<lambda>components_found.
        bind (lift (getProp data ''components'')) (\<lambda>components.
        bind (lift (getProp data ''errors'')) (\<lambda>errors.
        ret (JObj
              [(''componentsFound'', components_found),
               (''components'', components),
               (''errors'', logicalOr errors (JArr []))]))))))))))
       (\<lambda>error. throw (Error ''Failed to scan folder''))"

text \<open>
  The module-level singleton. \<open>cfgPort\<close> is the setting
  \<open>componentAI.ragService.port\<close>, \<open>None\<close> when the user has not set it. Reading
  the configuration and constructing the client are taken not to throw.
\<close>

definition getRAGClient :: "int option \<Rightarrow> RAGClient act" where
  "getRAGClient cfgPort h =
     (case ragClient h of
        None \<Rightarrow>
          (let port = (case cfgPort of None \<Rightarrow> 8765 | Some p \<Rightarrow> p);
               c = newRAGClient port
           in (Inr c, h\<lparr>ragClient := Some c\<rparr>))
      | Some c \<Rightarrow> (Inr c, h))"

definition resetRAGClient :: "unit act" where
  "resetRAGClient h = (Inr (), h\<lparr>ragClient := None\<rparr>)"

section \<open>copilot/agent.ts\<close>

subsection \<open>Intent detection\<close>

text \<open>
  \<open>toLowerCase\<close> on ASCII letters; other bytes are left as they are. The engine
  also lowers letters outside ASCII, which matters to \<open>includes\<close> only where the
  result is an ASCII letter (the Kelvin sign gives \<open>k\<close>, the dotted capital I gives
  \<open>i\<close> followed by a combining dot): no keyword below has a \<open>k\<close> or ends in
  \<open>i\<close>, so the keyword tests agree with the engine's on every query.
\<close>

definition lowerChar :: "char \<Rightarrow> char" where
  "lowerChar c =
     (case map_of (zip ''ABCDEFGHIJKLMNOPQRSTUVWXYZ'' ''abcdefghijklmnopqrstuvwxyz'') c of
        None \<Rightarrow> c
      | Some l \<Rightarrow> l)"

definition toLowerCase :: "string \<Rightarrow> string" where
  "toLowerCase s = map lowerChar s"

fun includesStr :: "string \<Rightarrow> string \<Rightarrow> bool" where
  "includesStr [] needle = (needle = [])"
| "includesStr (c # cs) needle = (prefix needle (c # cs) \<or> includesStr cs needle)"

datatype intent = Search | Suggest | Explain

definition determineIntent :: "string \<Rightarrow> intent" where
  "determineIntent query =
     (let lowerQuery = toLowerCase query in
      if includesStr lowerQuery ''explain'' \<or>
         includesStr lowerQuery ''what is'' \<or>
         includesStr lowerQuery ''tell me about''
      then Explain
      else if includesStr lowerQuery ''suggest'' \<or>
              includesStr lowerQuery ''recommend'' \<or>
              includesStr lowerQuery ''i need'' \<or>
              includesStr lowerQuery ''i want to build'' \<or>
              includesStr lowerQuery ''help me build''
      then Suggest
      else Search)"

text \<open>What "the lowercased query contains the keyword" means, independently of \<open>includesStr\<close>.\<close>

definition containsText :: "string \<Rightarrow> string \<Rightarrow> bool" where
  "containsText s k = (\<exists>before after. s = before @ k @ after)"

subsection \<open>Extracting the component name\<close>

text \<open>
  The four regular expressions are sequences of three kinds of item: a literal
  matched without regard to ASCII case (flag \<open>i\<close>), \<open>\s+\<close>, and the capture group
  \<open>(\w+)\<close>. Each run is matched greedily. In these four patterns the item after a run
  can never start with a character of the run, so giving characters back cannot turn
  a failed match into a successful one and the greedy match is the engine's match.
\<close>

datatype rx = Lit string | Spaces | Word

definition isWordChar :: "char \<Rightarrow> bool" where
  "isWordChar c =
     (c \<in> set ''abcdefghijklmnopqrstuvwxyzABCDEFGHIJKLMNOPQRSTUVWXYZ0123456789_'')"

text \<open>
  The number of bytes of the white-space character at the head of the string, 0 when
  there is none: the ASCII ones and, in UTF-8, U+00A0, U+1680, U+2000 to U+200A,
  U+2028, U+2029, U+202F, U+205F, U+3000 and U+FEFF.
\<close>

definition wsLen :: "string \<Rightarrow> nat" where
  "wsLen s =
     (case s of
        [] \<Rightarrow> 0
      | a # r \<Rightarrow>
          if a \<in> set [CHR 0x09, CHR 0x0A, CHR 0x0B, CHR 0x0C, CHR 0x0D, CHR 0x20] then 1
          else (case r of
                  [] \<Rightarrow> 0
                | b # r2 \<Rightarrow>
                    if a = CHR 0xC2 \<and> b = CHR 0xA0 then 2
                    else (case r2 of
                            [] \<Rightarrow> 0
                          | c # r3 \<Rightarrow>
                              if (a = CHR 0xE1 \<and> b = CHR 0x9A \<and> c = CHR 0x80) \<or>
                                 (a = CHR 0xE2 \<and> b = CHR 0x80 \<and>
                                    c \<in> set [CHR 0x80, CHR 0x81, CHR 0x82, CHR 0x83, CHR 0x84,
                                               CHR 0x85, CHR 0x86, CHR 0x87, CHR 0x88, CHR 0x89,
                                               CHR 0x8A, CHR 0xA8, CHR 0xA9, CHR 0xAF]) \<or>
                                 (a = CHR 0xE2 \<and> b = CHR 0x81 \<and> c = CHR 0x9F) \<or>
                                 (a = CHR 0xE3 \<and> b = CHR 0x80 \<and> c = CHR 0x80) \<or>
                                 (a = CHR 0xEF \<and> b = CHR 0xBB \<and> c = CHR 0xBF)
                              then 3 else 0)))"

fun dropSpaces :: "string \<Rightarrow> string" where
  "dropSpaces [] = []"
| "dropSpaces (a # r) =
     (if wsLen (a # r) = 0 then a # r else dropSpaces (drop (wsLen (a # r) - 1) r))"

fun matchHere :: "rx list \<Rightarrow> string \<Rightarrow> string option \<Rightarrow> string option option" where
  "matchHere [] s cap = Some cap"
| "matchHere (Lit l # ps) s cap =
     (if length l \<le> length s \<and> toLowerCase (take (length l) s) = toLowerCase l
      then matchHere ps (drop (length l) s) cap else None)"
| "matchHere (Spaces # ps) s cap =
     (if wsLen s = 0 then None else matchHere ps (dropSpaces s) cap)"
| "matchHere (Word # ps) s cap =
     (if takeWhile isWordChar s = [] then None
      else matchHere ps (dropWhile isWordChar s) (Some (takeWhile isWordChar s)))"

text \<open>\<open>query.match(pattern)\<close> without the global flag: the leftmost match.\<close>

fun rxMatch :: "rx list \<Rightarrow> string \<Rightarrow> string option option" where
  "rxMatch p [] = matchHere p [] None"
| "rxMatch p (c # cs) =
     (case matchHere p (c # cs) None of Some cap \<Rightarrow> Some cap | None \<Rightarrow> rxMatch p cs)"

definition patterns :: "rx list list" where
  "patterns =
     [Lit ''explain'', Spaces, Word] #
     [Lit ''what'', Spaces, Lit ''is'', Spaces, Word] #
     [Lit ''tell'', Spaces, Lit ''me'', Spaces, Lit ''about'', Spaces, Word] #
     [Word, Spaces, Lit ''component''] # []"

fun firstCapture :: "rx list list \<Rightarrow> string \<Rightarrow> string option" where
  "firstCapture [] query = None"
| "firstCapture (pattern # rest) query =
     (case rxMatch pattern query of
        Some (Some m1) \<Rightarrow> if m1 \<noteq> [] then Some m1 else firstCapture rest query
      | _ \<Rightarrow> firstCapture rest query)"

definition extractComponentName :: "string \<Rightarrow> string option" where
  "extractComponentName query = firstCapture patterns query"

subsection \<open>The chat handlers\<close>

definition markdown :: "string \<Rightarrow> unit act" where
  "markdown s h = (Inr (), h\<lparr>chat := chat h @ [s]\<rparr>)"

definition chatResult :: json where
  "chatResult = JObj [(''metadata'', JObj [(''command'', JStr [])])]"

definition warningSign :: string where
  "warningSign = [CHR 0xE2, CHR 0x9A, CHR 0xA0, CHR 0xEF, CHR 0xB8, CHR 0x8F]"

definition magnifier :: string where
  "magnifier = [CHR 0xF0, CHR 0x9F, CHR 0x94, CHR 0x8D]"

definition crossMark :: string where
  "crossMark = [CHR 0xE2, CHR 0x9D, CHR 0x8C]"

definition importLine :: "string \<Rightarrow> json \<Rightarrow> json \<Rightarrow> string" where
  "importLine pre name import_path =
     pre @ ''import { '' @ toStr name @ '' } from '' @ sq @ toStr import_path @ sq @ '';''"

definition searchProp :: "json \<Rightarrow> unit act" where
  "searchProp prop =
     bind (lift (getProp prop ''name'')) (\<lambda>name.
     bind (lift (getProp prop ''type'')) (\<lambda>type.
     bind (lift (getProp prop ''required'')) (\<lambda>required.
     markdown (''- `'' @ toStr name @ ''`: '' @ toStr type @
               (if truthy required then '' (required)'' else []) @ nl))))"

definition firstExample :: "(string \<Rightarrow> bool) \<Rightarrow> string \<Rightarrow> json \<Rightarrow> unit act" where
  "firstExample pos heading compo =
     bind (lift (getProp compo ''examples'')) (\<lambda>examples.
     if nonEmpty pos examples
     then bind (lift (index0 examples)) (\<lambda>example.
          bind (lift (getProp example ''code'')) (\<lambda>code.
          markdown (heading @ nl @ ''```tsx'' @ nl @ toStr code @ nl @ ''```'' @ nl @ nl)))
     else ret ())"

definition searchItem :: "(string \<Rightarrow> bool) \<Rightarrow> json \<Rightarrow> unit act" where
  "searchItem pos item =
     bind (lift (getProp item ''component'')) (\<lambda>compo.
     bind (lift (getProp compo ''name'')) (\<lambda>name.
     bind (markdown (''### '' @ toStr name @ nl @ nl)) (\<lambda>u.
     bind (lift (getProp compo ''description'')) (\<lambda>description.
     bind (markdown (toStr description @ nl @ nl)) (\<lambda>u.
     bind (lift (getProp compo ''import_path'')) (\<lambda>import_path.
     bind (if truthy import_path
           then markdown (importLine ''**Import:** `'' name import_path @ ''`'' @ nl @ nl)
           else ret ()) (\<lambda>u.
     bind (lift (getProp compo ''props'')) (\<lambda>props.
     bind (if nonEmpty pos props
           then bind (markdown (''**Props:**'' @ nl)) (\<lambda>u.
                bind (lift (sliceFrom0 props 3)) (\<lambda>first3.
                bind (forOf first3 searchProp) (\<lambda>u.
                markdown nl)))
           else ret ()) (\<lambda>u.
     bind (firstExample pos ''**Example:**'' compo) (\<lambda>u.
     markdown (''---'' @ nl @ nl)))))))))))"

text \<open>
  Each handler is \<open>try { ... } catch (error) { ... }\<close>; the block inside \<open>try\<close> is
  given a name of its own (\<open>searchTry\<close>, \<open>suggestTry\<close>, \<open>explainTry\<close>, and in the
  tools \<open>searchToolTry\<close> and so on).
\<close>

definition searchTry :: "(string \<Rightarrow> bool) \<Rightarrow> service \<Rightarrow> RAGClient \<Rightarrow> string \<Rightarrow> json act" where
  "searchTry pos srv client query =
     bind (searchComponents srv client (JObj [(''query'', JStr query), (''limit'', JNum 5)]))
       (\<lambda>result.
     bind (lift (getProp result ''results'')) (\<lambda>results.
     bind (lift (getProp results ''length'')) (\<lambda>len.
     if strictEq len (JNum 0)
     then bind (markdown ''No components found matching your query.'') (\<lambda>u. ret chatResult)
     else bind (markdown (''Found '' @ toStr len @ '' components:'' @ nl @ nl)) (\<lambda>u.
          bind (forOf results (searchItem pos)) (\<lambda>u.
          ret chatResult)))))"

definition handleSearch :: "(string \<Rightarrow> bool) \<Rightarrow> service \<Rightarrow> int option \<Rightarrow> string \<Rightarrow> json act" where
  "handleSearch pos srv cfgPort query =
     bind (getRAGClient cfgPort) (\<lambda>client.
     tryCatch (searchTry pos srv client query)
       (\<lambda>error.
          bind (markdown (''Failed to search: '' @ errStr error)) (\<lambda>u. ret chatResult)))"

definition suggestItem :: "(string \<Rightarrow> bool) \<Rightarrow> json \<Rightarrow> unit act" where
  "suggestItem pos item =
     bind (lift (getProp item ''component'')) (\<lambda>compo.
     bind (lift (getProp compo ''name'')) (\<lambda>name.
     bind (markdown (''### '' @ toStr name @ nl @ nl)) (\<lambda>u.
     bind (lift (getProp compo ''description'')) (\<lambda>description.
     bind (markdown (toStr description @ nl @ nl)) (\<lambda>u.
     bind (lift (getProp compo ''import_path'')) (\<lambda>import_path.
     bind (if truthy import_path
           then markdown (importLine ''**Import:** `'' name import_path @ ''`'' @ nl @ nl)
           else ret ()) (\<lambda>u.
     bind (firstExample pos ''**Example usage:**'' compo) (\<lambda>u.
     markdown (''---'' @ nl @ nl)))))))))"

definition suggestTry :: "(string \<Rightarrow> bool) \<Rightarrow> service \<Rightarrow> RAGClient \<Rightarrow> string \<Rightarrow> json act" where
  "suggestTry pos srv client query =
     bind (suggestComponents srv client (JStr query) (JNum 5)) (\<lambda>result.
     bind (lift (getProp result ''results'')) (\<lambda>results.
     bind (lift (getProp results ''length'')) (\<lambda>len.
     if strictEq len (JNum 0)
     then bind (markdown ''No component suggestions found for your description.'')
            (\<lambda>u. ret chatResult)
     else bind (markdown (''Here are '' @ toStr len @ '' component suggestions:'' @ nl @ nl))
            (\<lambda>u.
          bind (forOf results (suggestItem pos)) (\<lambda>u.
          ret chatResult)))))"

definition handleSuggest :: "(string \<Rightarrow> bool) \<Rightarrow> service \<Rightarrow> int option \<Rightarrow> string \<Rightarrow> json act" where
  "handleSuggest pos srv cfgPort query =
     bind (getRAGClient cfgPort) (\<lambda>client.
     tryCatch (suggestTry pos srv client query)
       (\<lambda>error.
          bind (markdown (''Failed to get suggestions: '' @ errStr error)) (\<lambda>u. ret chatResult)))"

definition explainProp :: "json \<Rightarrow> unit act" where
  "explainProp prop =
     bind (lift (getProp prop ''name'')) (\<lambda>name.
     bind (lift (getProp prop ''type'')) (\<lambda>type.
     bind (lift (getProp prop ''required'')) (\<lambda>required.
     bind (markdown (''- **'' @ toStr name @ ''**: `'' @ toStr type @ ''`'' @
                     (if truthy required then '' (required)'' else '' (optional)'') @ nl)) (\<lambda>u.
     bind (lift (getProp prop ''description'')) (\<lambda>description.
     if truthy description then markdown (''  - '' @ toStr description @ nl) else ret ())))))"

definition explainExample :: "json \<Rightarrow> unit act" where
  "explainExample example =
     bind (lift (getProp example ''title'')) (\<lambda>title.
     bind (markdown (''### '' @ toStr title @ nl @ nl)) (\<lambda>u.
     bind (lift (getProp example ''description'')) (\<lambda>description.
     bind (if truthy description then markdown (toStr description @ nl @ nl) else ret ()) (\<lambda>u.
     bind (lift (getProp example ''code'')) (\<lambda>code.
     markdown (''```tsx'' @ nl @ toStr code @ nl @ ''```'' @ nl @ nl))))))"

text \<open>
  The part of \<open>handleExplain\<close> that writes out the chosen component (\<open>comp\<close> in the
  source; the name is taken in HOL).
\<close>

definition explainComponent :: "(string \<Rightarrow> bool) \<Rightarrow> json \<Rightarrow> unit act" where
  "explainComponent pos compo =
     bind (lift (getProp compo ''name'')) (\<lambda>name.
     bind (markdown (''# '' @ toStr name @ nl @ nl)) (\<lambda>u.
     bind (lift (getProp compo ''description'')) (\<lambda>description.
     bind (markdown (toStr description @ nl @ nl)) (\<lambda>u.
     bind (lift (getProp compo ''category'')) (\<lambda>category.
     bind (if truthy category
           then markdown (''**Category:** '' @ toStr category @ nl @ nl) else ret ()) (\<lambda>u.
     bind (lift (getProp compo ''import_path'')) (\<lambda>import_path.
     bind (if truthy import_path
           then markdown (importLine (''**Import:**'' @ nl @ ''```tsx'' @ nl) name import_path @
                          nl @ ''```'' @ nl @ nl)
           else ret ()) (\<lambda>u.
     bind (lift (getProp compo ''props'')) (\<lambda>props.
     bind (if nonEmpty pos props
           then bind (markdown (''## Props'' @ nl @ nl)) (\<lambda>u.
                bind (forOf props explainProp) (\<lambda>u.
                markdown nl))
           else ret ()) (\<lambda>u.
     bind (lift (getProp compo ''examples'')) (\<lambda>examples.
     if nonEmpty pos examples
     then bind (markdown (''## Examples'' @ nl @ nl)) (\<lambda>u. forOf examples explainExample)
     else ret ())))))))))))"

definition explainTry :: "(string \<Rightarrow> bool) \<Rightarrow> service \<Rightarrow> RAGClient \<Rightarrow> string \<Rightarrow> json act" where
  "explainTry pos srv client query =
     (case extractComponentName query of
        None \<Rightarrow>
          bind (markdown
            ''Could not determine which component to explain. Please specify a component name.'')
            (\<lambda>u. ret chatResult)
      | Some componentName \<Rightarrow>
          if componentName = []
          then bind (markdown
            ''Could not determine which component to explain. Please specify a component name.'')
            (\<lambda>u. ret chatResult)
          else
          bind (getComponentsByName srv client (JStr componentName)) (\<lambda>components.
          bind (lift (getProp components ''length'')) (\<lambda>len.
          if strictEq len (JNum 0)
          then bind (markdown (''Component '' @ dq @ componentName @ dq @
                               '' not found in the knowledge base.'')) (\<lambda>u. ret chatResult)
          else bind (lift (index0 components)) (\<lambda>compo.
               bind (explainComponent pos compo) (\<lambda>u.
               ret chatResult)))))"

definition handleExplain :: "(string \<Rightarrow> bool) \<Rightarrow> service \<Rightarrow> int option \<Rightarrow> string \<Rightarrow> json act" where
  "handleExplain pos srv cfgPort query =
     bind (getRAGClient cfgPort) (\<lambda>client.
     tryCatch (explainTry pos srv client query)
       (\<lambda>error.
          bind (markdown (''Failed to explain component: '' @ errStr error)) (\<lambda>u. ret chatResult)))"

text \<open>
  \<open>handleRequest\<close>; \<open>prompt\<close> is \<open>request.prompt\<close>, a string by the chat API. The
  final \<open>else\<close> of the source cannot be reached and is kept as written.
\<close>

definition dispatch :: "(string \<Rightarrow> bool) \<Rightarrow> service \<Rightarrow> int option \<Rightarrow> intent \<Rightarrow> string \<Rightarrow> json act" where
  "dispatch pos srv cfgPort i query =
     (if i = Search then handleSearch pos srv cfgPort query
      else if i = Suggest then handleSuggest pos srv cfgPort query
      else if i = Explain then handleExplain pos srv cfgPort query
      else handleSearch pos srv cfgPort query)"

definition notRunningText :: string where
  "notRunningText = warningSign @
     '' RAG service is not running. Please start it using the command: **Component AI: Start RAG Service**''"

definition handleRequest :: "(string \<Rightarrow> bool) \<Rightarrow> service \<Rightarrow> int option \<Rightarrow> string \<Rightarrow> json act" where
  "handleRequest pos srv cfgPort prompt =
     tryCatch
       (bind (getRAGClient cfgPort) (\<lambda>client.
        bind (healthCheck srv client) (\<lambda>isHealthy.
        if \<not> isHealthy
        then bind (markdown notRunningText) (\<lambda>u. ret chatResult)
        else
          let query = prompt; i = determineIntent query in
          bind (markdown (magnifier @ '' Searching for components...'' @ nl @ nl)) (\<lambda>u.
          dispatch pos srv cfgPort i query))))
       (\<lambda>error.
          bind (markdown (crossMark @ '' Error: '' @ errStr error)) (\<lambda>u. ret chatResult))"

section \<open>copilot/tools.ts\<close>

text \<open>
  A tool handler takes \<open>parameters\<close> of type \<open>any\<close>. In a callback the source reads
  \<open>r.component\<close> once per field; the reads are pure, so the model reads it once.
\<close>

definition failure :: "string \<Rightarrow> jsError \<Rightarrow> json" where
  "failure what error =
     JObj [(''success'', JBool False), (''error'', JStr (what @ errStr error))]"

definition searchHit :: "json \<Rightarrow> jsError + json" where
  "searchHit r =
     bindE (getProp r ''component'') (\<lambda>compo.
     bindE (getProp compo ''name'') (\<lambda>name.
     bindE (getProp compo ''description'') (\<lambda>description.
     bindE (getProp compo ''import_path'') (\<lambda>import_path.
     bindE (getProp compo ''props'') (\<lambda>props.
     bindE (getProp r ''score'') (\<lambda>score.
     Inr (JObj [(''name'', name), (''description'', description),
                (''importPath'', import_path), (''props'', props), (''score'', score)])))))))"

definition searchToolTry :: "service \<Rightarrow> RAGClient \<Rightarrow> json \<Rightarrow> json act" where
  "searchToolTry srv client parameters =
     bind (lift (getProp parameters ''query'')) (\<lambda>query.
     bind (lift (getProp parameters ''limit'')) (\<lambda>limit.
     bind (searchComponents srv client
             (JObj [(''query'', query), (''limit'', logicalOr limit (JNum 10))])) (\<lambda>result.
     bind (lift (getProp result ''results'')) (\<lambda>results.
     bind (lift (arrayMap results searchHit)) (\<lambda>components.
     ret (JObj [(''success'', JBool True), (''components'', components)]))))))"

definition searchComponentsTool :: "service \<Rightarrow> int option \<Rightarrow> json \<Rightarrow> json act" where
  "searchComponentsTool srv cfgPort parameters =
     bind (getRAGClient cfgPort) (\<lambda>client.
     tryCatch (searchToolTry srv client parameters)
       (\<lambda>error. ret (failure ''Failed to search components: '' error)))"

definition explainFields :: "json \<Rightarrow> jsError + json" where
  "explainFields component =
     bindE (getProp component ''name'') (\<lambda>name.
     bindE (getProp component ''description'') (\<lambda>description.
     bindE (getProp component ''file_path'') (\<lambda>file_path.
     bindE (getProp component ''import_path'') (\<lambda>import_path.
     bindE (getProp component ''export_type'') (\<lambda>export_type.
     bindE (getProp component ''props'') (\<lambda>props.
     bindE (getProp component ''examples'') (\<lambda>examples.
     bindE (getProp component ''theme_wrapper'') (\<lambda>theme_wrapper.
     bindE (getProp component ''category'') (\<lambda>category.
     bindE (getProp component ''tags'') (\<lambda>tags.
     Inr (JObj [(''name'', name), (''description'', description), (''filePath'', file_path),
                (''importPath'', import_path), (''exportType'', export_type),
                (''props'', props), (''examples'', examples),
                (''themeWrapper'', theme_wrapper), (''category'', category),
                (''tags'', tags)])))))))))))"

definition explainToolTry :: "service \<Rightarrow> RAGClient \<Rightarrow> json \<Rightarrow> json act" where
  "explainToolTry srv client parameters =
     bind (lift (getProp parameters ''componentName'')) (\<lambda>componentName.
     bind (getComponentsByName srv client componentName) (\<lambda>components.
     bind (lift (getProp components ''length'')) (\<lambda>len.
     if strictEq len (JNum 0)
     then ret (JObj [(''success'', JBool False),
                     (''error'', JStr (''Component '' @ dq @ toStr componentName @ dq @
                                      '' not found''))])
     else bind (lift (index0 components)) (\<lambda>component.
          bind (lift (explainFields component)) (\<lambda>fields.
          ret (JObj [(''success'', JBool True), (''component'', fields)]))))))"

definition explainComponentTool :: "service \<Rightarrow> int option \<Rightarrow> json \<Rightarrow> json act" where
  "explainComponentTool srv cfgPort parameters =
     bind (getRAGClient cfgPort) (\<lambda>client.
     tryCatch (explainToolTry srv client parameters)
       (\<lambda>error. ret (failure ''Failed to get component details: '' error)))"

definition suggestHit :: "json \<Rightarrow> jsError + json" where
  "suggestHit r =
     bindE (getProp r ''component'') (\<lambda>compo.
     bindE (getProp compo ''name'') (\<lambda>name.
     bindE (getProp compo ''description'') (\<lambda>description.
     bindE (getProp compo ''import_path'') (\<lambda>import_path.
     bindE (getProp compo ''props'') (\<lambda>props.
     bindE (getProp r ''score'') (\<lambda>score.
     bindE (getProp compo ''examples'') (\<lambda>examples.
     bindE (sliceFrom0 examples 1) (\<lambda>first1.
     Inr (JObj [(''name'', name), (''description'', description),
                (''importPath'', import_path), (''props'', props), (''score'', score),
                (''examples'', first1)])))))))))"

definition suggestToolTry :: "service \<Rightarrow> RAGClient \<Rightarrow> json \<Rightarrow> json act" where
  "suggestToolTry srv client parameters =
     bind (lift (getProp parameters ''uiDescription'')) (\<lambda>uiDescription.
     bind (lift (getProp parameters ''limit'')) (\<lambda>limit.
     bind (suggestComponents srv client uiDescription (logicalOr limit (JNum 5))) (\<lambda>result.
     bind (lift (getProp result ''results'')) (\<lambda>results.
     bind (lift (arrayMap results suggestHit)) (\<lambda>suggestions.
     ret (JObj [(''success'', JBool True), (''suggestions'', suggestions)]))))))"

definition suggestComponentForUITool :: "service \<Rightarrow> int option \<Rightarrow> json \<Rightarrow> json act" where
  "suggestComponentForUITool srv cfgPort parameters =
     bind (getRAGClient cfgPort) (\<lambda>client.
     tryCatch (suggestToolTry srv client parameters)
       (\<lambda>error. ret (failure ''Failed to suggest components: '' error)))"

definition scanToolTry :: "service \<Rightarrow> RAGClient \<Rightarrow> json \<Rightarrow> json act" where
  "scanToolTry srv client parameters =
     bind (lift (getProp parameters ''folderPath'')) (\<lambda>folderPath.
     bind (lift (getProp parameters ''includeStorybooks'')) (\<lambda>includeStorybooks.
     bind (lift (getProp parameters ''recursive'')) (\<lambda>recursive.
     bind (scanFolder srv client
             (JObj [(''folder_path'', folderPath),
                    (''include_storybooks'', JBool (\<not> strictEq includeStorybooks (JBool False))),
                    (''include_tests'', JBool False),
                    (''recursive'', JBool (\<not> strictEq recursive (JBool False)))])) (\<lambda>result.
     bind (lift (getProp result ''components_found'')) (\<lambda>components_found.
     bind (lift (getProp result ''components'')) (\<lambda>components.
     bind (lift (arrayMap components (\<lambda>c. getProp c ''name''))) (\<lambda>names.
     bind (lift (getProp result ''errors'')) (\<lambda>errors.
     ret (JObj [(''success'', JBool True), (''componentsFound'', components_found),
                (''components'', names), (''errors'', errors)])))))))))"

definition scanComponentFolderTool :: "service \<Rightarrow> int option \<Rightarrow> json \<Rightarrow> json act" where
  "scanComponentFolderTool srv cfgPort parameters =
     bind (getRAGClient cfgPort) (\<lambda>client.
     tryCatch (scanToolTry srv client parameters)
       (\<lambda>error. ret (failure ''Failed to scan folder: '' error)))"

definition allTools :: "(service \<Rightarrow> int option \<Rightarrow> json \<Rightarrow> json act) list" where
  "allTools =
     [searchComponentsTool, explainComponentTool, suggestComponentForUITool,
      scanComponentFolderTool]"

section \<open>sidebar/provider.ts and extension.ts\<close>

text \<open>
  \<open>this._view?.webview.postMessage(m)\<close>: nothing is posted while there is no view.
\<close>

definition postMessage :: "json \<Rightarrow> unit act" where
  "postMessage m h = (Inr (), if view h then h\<lparr>posted := posted h @ [m]\<rparr> else h)"

definition showInformationMessage :: "string \<Rightarrow> unit act" where
  "showInformationMessage m h = (Inr (), h\<lparr>notices := notices h @ [InformationMessage m]\<rparr>)"

definition showErrorMessage :: "string \<Rightarrow> unit act" where
  "showErrorMessage m h = (Inr (), h\<lparr>notices := notices h @ [ErrorMessage m]\<rparr>)"

definition loadComponents :: "service \<Rightarrow> int option \<Rightarrow> unit act" where
  "loadComponents srv cfgPort =
     tryCatch
       (bind (getRAGClient cfgPort) (\<lambda>client.
        bind (getAllComponents srv client) (\<lambda>components.
        postMessage (JObj [(''type'', JStr ''componentsLoaded''), (''components'', components)]))))
       (\<lambda>error.
          postMessage (JObj [(''type'', JStr ''error''),
                             (''message'', JStr (''Failed to load components: '' @ errStr error))]))"

definition handleDeleteComponent :: "service \<Rightarrow> int option \<Rightarrow> json \<Rightarrow> unit act" where
  "handleDeleteComponent srv cfgPort componentId =
     tryCatch
       (bind (getRAGClient cfgPort) (\<lambda>client.
        bind (deleteComponent srv client componentId) (\<lambda>u.
        bind (postMessage (JObj [(''type'', JStr ''componentDeleted''),
                                 (''componentId'', componentId)])) (\<lambda>u.
        bind (loadComponents srv cfgPort) (\<lambda>u.
        showInformationMessage ''Component deleted'')))))
       (\<lambda>error. showErrorMessage (''Failed to delete component: '' @ errStr error))"

text \<open>
  The command \<open>component-ai.scanFolder\<close> of \<open>extension.ts\<close>, from the point where the
  user has picked \<open>folderPath\<close>. The sidebar refresh it starts is run after it.
\<close>

definition scanFolderCommand :: "service \<Rightarrow> int option \<Rightarrow> string \<Rightarrow> unit act" where
  "scanFolderCommand srv cfgPort folderPath =
     tryCatch
       (bind (getRAGClient cfgPort) (\<lambda>client.
        bind (scanFolder srv client
                (JObj [(''folder_path'', JStr folderPath), (''include_storybooks'', JBool True),
                       (''include_tests'', JBool False), (''recursive'', JBool True)])) (\<lambda>result.
        bind (lift (getProp result ''components_found'')) (\<lambda>components_found.
        bind (showInformationMessage (''Scanned '' @ toStr components_found @ '' components''))
          (\<lambda>u.
        loadComponents srv cfgPort)))))
       (\<lambda>error. showErrorMessage (''Failed to scan folder: '' @ errStr error))"

subsection \<open>The script inside the webview\<close>

text \<open>
  The state of the page: the script's variable \<open>allComponents\<close> and what is on
  screen. The markup written into the page is not modelled; \<open>shown\<close> is the list of components that
  \<open>renderComponents\<close> last wrote into the list element, in order.
\<close>

record webview =
  allComponents :: json
  shown :: "json list"
  emptyState :: bool
  loading :: bool
  errorShown :: "json option"

definition setW :: "(webview \<Rightarrow> webview) \<Rightarrow> (webview, unit) eff" where
  "setW f w = (Inr (), f w)"

definition renderItem :: "json \<Rightarrow> jsError + json" where
  "renderItem component = bindE (getProp component ''name'') (\<lambda>name. Inr component)"

definition renderComponents :: "json \<Rightarrow> (webview, unit) eff" where
  "renderComponents components =
     bind (lift (getProp components ''length'')) (\<lambda>len.
     if strictEq len (JNum 0)
     then setW (\<lambda>w. w\<lparr>shown := [], emptyState := True\<rparr>)
     else bind (setW (\<lambda>w. w\<lparr>emptyState := False\<rparr>)) (\<lambda>u.
          bind (lift (arrayMap components renderItem)) (\<lambda>items.
          bind (lift (iterate items)) (\<lambda>xs.
          setW (\<lambda>w. w\<lparr>shown := xs\<rparr>)))))"

definition showLoading :: "bool \<Rightarrow> (webview, unit) eff" where
  "showLoading b = setW (\<lambda>w. w\<lparr>loading := b\<rparr>)"

definition onMessage :: "json \<Rightarrow> (webview, unit) eff" where
  "onMessage message =
     bind (lift (getProp message ''type'')) (\<lambda>type.
     if strictEq type (JStr ''componentsLoaded'')
     then bind (lift (getProp message ''components'')) (\<lambda>components.
          bind (setW (\<lambda>w. w\<lparr>allComponents := components\<rparr>)) (\<lambda>u.
          bind (renderComponents components) (\<lambda>u.
          showLoading False)))
     else if strictEq type (JStr ''searchResults'')
     then bind (lift (getProp message ''results'')) (\<lambda>results.
          bind (renderComponents results) (\<lambda>u.
          showLoading False))
     else if strictEq type (JStr ''error'')
     then bind (lift (getProp message ''message'')) (\<lambda>m.
          bind (setW (\<lambda>w. w\<lparr>errorShown := Some m\<rparr>)) (\<lambda>u.
          showLoading False))
     else if strictEq type (JStr ''componentDeleted'')
     then (\<lambda>w.
          (bind (lift (getProp message ''componentId'')) (\<lambda>componentId.
           bind (lift (arrayFilter (allComponents w)
                   (\<lambda>c. bindE (getProp c ''id'') (\<lambda>i. Inr (\<not> strictEq i componentId)))))
             (\<lambda>kept.
           bind (setW (\<lambda>w. w\<lparr>allComponents := kept\<rparr>)) (\<lambda>u.
           renderComponents kept)))) w)
     else ret ())"

section \<open>Notions used to state the properties\<close>

text \<open>The extension host right after start: no client yet, the sidebar not shown yet.\<close>

definition host0 :: host where
  "host0 = \<lparr>ragClient = None, requests = [], chat = [], view = False, posted = [],
             notices = []\<rparr>"

text \<open>The client a call of \<open>getRAGClient\<close> hands out in state \<open>h\<close>, and the state it leaves.\<close>

definition theClient :: "int option \<Rightarrow> host \<Rightarrow> RAGClient" where
  "theClient cfgPort h =
     (case ragClient h of
        Some c \<Rightarrow> c
      | None \<Rightarrow> newRAGClient (case cfgPort of None \<Rightarrow> 8765 | Some p \<Rightarrow> p))"

definition withClient :: "int option \<Rightarrow> host \<Rightarrow> host" where
  "withClient cfgPort h = h\<lparr>ragClient := Some (theClient cfgPort h)\<rparr>"

definition healthRequest :: "RAGClient \<Rightarrow> httpRequest" where
  "healthRequest c =
     \<lparr>reqMethod = GET, reqUrl = baseUrl c @ ''/api/health'', reqBody = JUndefined\<rparr>"

text \<open>The value of a property that can be read, \<open>undefined\<close> otherwise.\<close>

definition propOf :: "json \<Rightarrow> string \<Rightarrow> json" where
  "propOf v k = (case getProp v k of Inl e \<Rightarrow> JUndefined | Inr x \<Rightarrow> x)"

text \<open>A tool result of the shape \<open>{success: false, error: "..."}\<close>.\<close>

fun isFailure :: "json \<Rightarrow> bool" where
  "isFailure (JObj [(a, JBool b), (c, JStr m)]) = (a = ''success'' \<and> \<not> b \<and> c = ''error'')"
| "isFailure v = False"

text \<open>Every value an effect returns normally satisfies \<open>P\<close>.\<close>

definition yields :: "('a \<Rightarrow> bool) \<Rightarrow> ('s, 'a) eff \<Rightarrow> bool" where
  "yields P m = (\<forall>h r h'. m h = (Inr r, h') \<longrightarrow> P r)"

text \<open>Two services and two components, used where a property is tried on an input.\<close>

definition serviceDown :: service where
  "serviceDown log rq = Inl (Error ''connect ECONNREFUSED 127.0.0.1:8765'')"

definition buttonComponent :: json where
  "buttonComponent = JObj
     [(''id'', JStr ''c1''), (''name'', JStr ''Button''),
      (''description'', JStr ''A clickable button''),
      (''file_path'', JStr ''/ui/Button.tsx''), (''import_path'', JStr ''@ui/button''),
      (''props'', JArr [JObj [(''name'', JStr ''label''), (''type'', JStr ''string''),
                              (''required'', JBool True)]]),
      (''examples'', JArr [])]"

definition cardComponent :: json where
  "cardComponent = JObj
     [(''id'', JStr ''c2''), (''name'', JStr ''Card''), (''description'', JStr ''A card''),
      (''file_path'', JStr ''/ui/Card.tsx''), (''import_path'', JStr ''@ui/card''),
      (''props'', JArr []), (''examples'', JArr [])]"

definition serviceUp :: service where
  "serviceUp log rq =
     (if reqUrl rq = ''http://localhost:8765/api/health''
      then Inr (JObj [(''status'', JStr ''healthy'')])
      else if reqUrl rq = ''http://localhost:8765/api/components/name/Button''
      then Inr (JArr [buttonComponent, cardComponent])
      else if reqUrl rq = ''http://localhost:8765/api/components/name/Modal''
      then Inr (JArr [])
      else if reqUrl rq = ''http://localhost:8765/api/scan''
      then Inr (JObj [(''components_found'', JNum 2),
                      (''components'', JArr [buttonComponent, cardComponent])])
      else Inl (Error ''Request failed with status code 500''))"

text \<open>
  A service that answers a scan with a message where the list of errors is expected.
\<close>

definition serviceBoom :: service where
  "serviceBoom log rq =
     (if reqUrl rq = ''http://localhost:8765/api/scan''
      then Inr (JObj [(''components_found'', JNum 0), (''components'', JArr []),
                      (''errors'', JStr ''boom'')])
      else Inl (Error ''Request failed with status code 500''))"

text \<open>A page of the sidebar that lists the two components.\<close>

definition page0 :: webview where
  "page0 = \<lparr>allComponents = JArr [buttonComponent, cardComponent],
            shown = [buttonComponent, cardComponent], emptyState = False, loading = False,
            errorShown = None\<rparr>"

section \<open>Facts about the effect combinators\<close>

lemma yields_ret: "P v \<Longrightarrow> yields P (ret v)"
  by (simp add: yields_def ret_def)

lemma yields_bind: "(\<And>x. yields P (f x)) \<Longrightarrow> yields P (bind m f)"
  unfolding yields_def bind_def by (auto split: prod.splits sum.splits)

lemma yields_if: "yields P a \<Longrightarrow> yields P b \<Longrightarrow> yields P (if c then a else b)"
  by simp

lemma yields_option:
  "yields P a \<Longrightarrow> (\<And>x. yields P (b x)) \<Longrightarrow> yields P (case opt of None \<Rightarrow> a | Some x \<Rightarrow> b x)"
  by (cases opt) simp_all

lemma markdown_then_ret:
  "bind (markdown s) (\<lambda>u. ret v) h = (Inr v, h\<lparr>chat := chat h @ [s]\<rparr>)"
  by (simp add: bind_def markdown_def ret_def)

lemma tryCatch_run:
  assumes "yields (\<lambda>r. r = v) m"
  shows "tryCatch m (\<lambda>e. bind (markdown (t e)) (\<lambda>u. ret v)) h =
           (case m h of
              (Inl e, h2) \<Rightarrow> (Inr v, h2\<lparr>chat := chat h2 @ [t e]\<rparr>)
            | (Inr r, h2) \<Rightarrow> (Inr v, h2))"
proof (cases "m h")
  case (Pair r h2)
  show ?thesis
  proof (cases r)
    case (Inl e)
    with Pair show ?thesis by (simp add: tryCatch_def markdown_then_ret)
  next
    case (Inr x)
    with Pair assms have "x = v" by (auto simp: yields_def)
    with Pair Inr show ?thesis by (simp add: tryCatch_def)
  qed
qed

lemma tryCatch_ret_run:
  "tryCatch m (\<lambda>e. ret (d e)) h =
     (case m h of (Inl e, h2) \<Rightarrow> (Inr (d e), h2) | (Inr r, h2) \<Rightarrow> (Inr r, h2))"
  by (cases "m h") (auto simp: tryCatch_def ret_def split: sum.splits)

lemma case_result_total:
  "\<exists>h'. (case (x :: (jsError + 'a) \<times> 's) of
           (Inl e, h2) \<Rightarrow> (Inr (v :: 'b), f e h2) | (Inr r, h2) \<Rightarrow> (Inr v, g h2)) = (Inr v, h')"
  by (cases x) (auto split: sum.splits)

lemma getRAGClient_run: "getRAGClient cfg h = (Inr (theClient cfg h), withClient cfg h)"
  by (cases "ragClient h") (simp_all add: getRAGClient_def theClient_def withClient_def Let_def)

lemma after_getRAGClient:
  "bind (getRAGClient cfg) f h = f (theClient cfg h) (withClient cfg h)"
  by (simp add: bind_def getRAGClient_run)

section \<open>The chat handlers return\<close>

lemma searchTry_chatResult: "yields (\<lambda>r. r = chatResult) (searchTry pos srv c q)"
  unfolding searchTry_def by (intro yields_bind yields_if yields_ret) simp_all

lemma suggestTry_chatResult: "yields (\<lambda>r. r = chatResult) (suggestTry pos srv c q)"
  unfolding suggestTry_def by (intro yields_bind yields_if yields_ret) simp_all

lemma explainTry_chatResult: "yields (\<lambda>r. r = chatResult) (explainTry pos srv c q)"
  unfolding explainTry_def by (intro yields_option yields_bind yields_if yields_ret) simp_all

lemma handleSearch_run:
  "handleSearch pos srv cfg q h =
     (case searchTry pos srv (theClient cfg h) q (withClient cfg h) of
        (Inl e, h2) \<Rightarrow> (Inr chatResult, h2\<lparr>chat := chat h2 @ [''Failed to search: '' @ errStr e]\<rparr>)
      | (Inr r, h2) \<Rightarrow> (Inr chatResult, h2))"
  unfolding handleSearch_def after_getRAGClient by (rule tryCatch_run[OF searchTry_chatResult])

lemma handleSuggest_run:
  "handleSuggest pos srv cfg q h =
     (case suggestTry pos srv (theClient cfg h) q (withClient cfg h) of
        (Inl e, h2) \<Rightarrow>
          (Inr chatResult, h2\<lparr>chat := chat h2 @ [''Failed to get suggestions: '' @ errStr e]\<rparr>)
      | (Inr r, h2) \<Rightarrow> (Inr chatResult, h2))"
  unfolding handleSuggest_def after_getRAGClient by (rule tryCatch_run[OF suggestTry_chatResult])

lemma handleExplain_run:
  "handleExplain pos srv cfg q h =
     (case explainTry pos srv (theClient cfg h) q (withClient cfg h) of
        (Inl e, h2) \<Rightarrow>
          (Inr chatResult, h2\<lparr>chat := chat h2 @ [''Failed to explain component: '' @ errStr e]\<rparr>)
      | (Inr r, h2) \<Rightarrow> (Inr chatResult, h2))"
  unfolding handleExplain_def after_getRAGClient by (rule tryCatch_run[OF explainTry_chatResult])

lemma dispatch_cases:
  "dispatch pos srv cfg i q =
     (case i of Search \<Rightarrow> handleSearch pos srv cfg q
      | Suggest \<Rightarrow> handleSuggest pos srv cfg q
      | Explain \<Rightarrow> handleExplain pos srv cfg q)"
  by (cases i) (simp_all add: dispatch_def)

lemma dispatch_returns: "\<exists>h'. dispatch pos srv cfg i q h = (Inr chatResult, h')"
  by (cases i)
     (simp_all add: dispatch_cases handleSearch_run handleSuggest_run handleExplain_run
        case_result_total)

lemma healthCheck_run:
  "healthCheck srv c h =
     (Inr (\<exists>d. srv (requests h) (healthRequest c) = Inr d \<and>
               getProp d ''status'' = Inr (JStr ''healthy'')),
      h\<lparr>requests := requests h @ [healthRequest c]\<rparr>)"
proof (cases "srv (requests h) (healthRequest c)")
  case (Inl e)
  then show ?thesis
    by (simp add: healthCheck_def tryCatch_def bind_def axios_def ret_def lift_def healthRequest_def)
next
  case (Inr d)
  then show ?thesis
    by (cases "getProp d ''status''"; cases d)
       (auto simp: healthCheck_def tryCatch_def bind_def axios_def ret_def lift_def healthRequest_def
             elim: strictEq.elims)
qed

lemma after_healthCheck:
  "bind (healthCheck srv c) f h =
     f (\<exists>d. srv (requests h) (healthRequest c) = Inr d \<and>
             getProp d ''status'' = Inr (JStr ''healthy''))
       (h\<lparr>requests := requests h @ [healthRequest c]\<rparr>)"
  by (simp add: bind_def healthCheck_run)

lemma after_markdown: "bind (markdown s) f h = f () (h\<lparr>chat := chat h @ [s]\<rparr>)"
  by (simp add: bind_def markdown_def)

lemma tryCatch_Inr: "m h = (Inr v, h') \<Longrightarrow> tryCatch m c h = (Inr v, h')"
  by (simp add: tryCatch_def)

lemma handleRequest_run:
  "handleRequest pos srv cfg prompt h =
     (let c = theClient cfg h; h1 = (withClient cfg h)\<lparr>requests := requests h @ [healthRequest c]\<rparr>
      in if fst (healthCheck srv c (withClient cfg h)) = Inr True
         then dispatch pos srv cfg (determineIntent prompt) prompt
                (h1\<lparr>chat := chat h @ [magnifier @ '' Searching for components...'' @ nl @ nl]\<rparr>)
         else (Inr chatResult, h1\<lparr>chat := chat h @ [notRunningText]\<rparr>))"
proof -
  let ?c = "theClient cfg h"
  let ?h1 = "(withClient cfg h)\<lparr>requests := requests h @ [healthRequest ?c]\<rparr>"
  let ?h2 = "?h1\<lparr>chat := chat h @ [magnifier @ '' Searching for components...'' @ nl @ nl]\<rparr>"
  let ?body = "bind (getRAGClient cfg) (\<lambda>client.
        bind (healthCheck srv client) (\<lambda>isHealthy.
        if \<not> isHealthy
        then bind (markdown notRunningText) (\<lambda>u. ret chatResult)
        else
          let query = prompt; i = determineIntent query in
          bind (markdown (magnifier @ '' Searching for components...'' @ nl @ nl)) (\<lambda>u.
          dispatch pos srv cfg i query)))"
  let ?rhs = "(if fst (healthCheck srv ?c (withClient cfg h)) = Inr True
         then dispatch pos srv cfg (determineIntent prompt) prompt ?h2
         else (Inr chatResult, ?h1\<lparr>chat := chat h @ [notRunningText]\<rparr>))"
  have body: "?body h = ?rhs"
    by (auto simp add: after_getRAGClient after_healthCheck after_markdown healthCheck_run
          ret_def Let_def withClient_def)
  obtain h3 where "dispatch pos srv cfg (determineIntent prompt) prompt ?h2 = (Inr chatResult, h3)"
    using dispatch_returns by blast
  then obtain h4 where "?rhs = (Inr chatResult, h4)" by (cases "fst (healthCheck srv ?c (withClient cfg h)) = Inr True") simp_all
  with body have "tryCatch ?body
       (\<lambda>error. bind (markdown (crossMark @ '' Error: '' @ errStr error)) (\<lambda>u. ret chatResult)) h = ?rhs"
    by (simp add: tryCatch_Inr)
  then show ?thesis unfolding handleRequest_def Let_def .
qed

lemma handleRequest_returns: "\<exists>h'. handleRequest pos srv cfg prompt h = (Inr chatResult, h')"
  using dispatch_returns by (simp add: handleRequest_run Let_def)

lemma includesStr_sublist: "includesStr s k = sublist k s"
  by (induction s) (auto simp: sublist_Cons_right)

lemma includesStr_containsText: "includesStr s k = containsText s k"
  by (simp add: includesStr_sublist containsText_def sublist_def)

section \<open>Evaluating the examples\<close>

lemma port_8765: "newRAGClient 8765 = \<lparr>baseUrl = ''http://localhost:8765''\<rparr>"
  by (simp add: newRAGClient_def showInt_def showNat.simps digitChar_def)

lemma theClient_host0: "theClient None host0 = \<lparr>baseUrl = ''http://localhost:8765''\<rparr>"
  by (simp add: theClient_def host0_def port_8765)

lemma withClient_host0:
  "withClient None host0 = host0\<lparr>ragClient := Some \<lparr>baseUrl = ''http://localhost:8765''\<rparr>\<rparr>"
  by (simp add: withClient_def theClient_host0)

lemma serviceDown_unhealthy:
  "fst (healthCheck serviceDown (theClient None host0) (withClient None host0)) = Inr False"
  by (simp add: healthCheck_run serviceDown_def)

lemma serviceUp_healthy:
  "fst (healthCheck serviceUp (theClient None host0) (withClient None host0)) = Inr True"
  by (simp add: healthCheck_run theClient_host0 healthRequest_def serviceUp_def)

section \<open>Health check\<close>

text \<open>
  C4. \<open>healthCheck\<close> never throws. It returns \<open>true\<close> exactly when the GET on
  \<open>/api/health\<close> resolved with data whose \<open>status\<close> is the string \<open>healthy\<close>, and
  \<open>false\<close> when the request was rejected or the data is anything else; the health
  request is the one request it sends.
\<close>

theorem healthCheck_iff_healthy:
  "fst (healthCheck srv c h) =
     Inr (\<exists>d. srv (requests h) (healthRequest c) = Inr d \<and>
              getProp d ''status'' = Inr (JStr ''healthy'')) \<and>
   requests (snd (healthCheck srv c h)) = requests h @ [healthRequest c]"
  by (simp add: healthCheck_run)

theorem healthCheck_iff_healthy_witness:
  "fst (healthCheck serviceUp (theClient None host0) (withClient None host0)) = Inr True \<and>
   fst (healthCheck serviceDown (theClient None host0) (withClient None host0)) = Inr False"
proof -
  have up: "\<exists>d. serviceUp (requests (withClient None host0)) (healthRequest (theClient None host0))
                 = Inr d \<and> getProp d ''status'' = Inr (JStr ''healthy'')"
    by (simp add: theClient_host0 healthRequest_def serviceUp_def)
  have down: "\<not> (\<exists>d. serviceDown (requests (withClient None host0))
                 (healthRequest (theClient None host0))
                 = Inr d \<and> getProp d ''status'' = Inr (JStr ''healthy''))"
    by (simp add: serviceDown_def)
  from healthCheck_iff_healthy[of serviceUp "theClient None host0" "withClient None host0"] up
  have 1: "fst (healthCheck serviceUp (theClient None host0) (withClient None host0)) = Inr True"
    by simp
  from healthCheck_iff_healthy[of serviceDown "theClient None host0" "withClient None host0"] down
  have 2: "fst (healthCheck serviceDown (theClient None host0) (withClient None host0)) = Inr False"
    by simp
  from 1 2 show ?thesis by (rule conjI)
qed

section \<open>Health-check failure is advisory\<close>

text \<open>
  C5. When the health check reports unhealthy, \<open>handleRequest\<close> writes the advisory
  message to the chat and returns the normal result; the health request is the only
  request added to those sent, so nothing is asked of the search, suggest or
  components endpoints.
\<close>

theorem unhealthy_is_advisory:
  "fst (healthCheck srv (theClient cfg h) (withClient cfg h)) = Inr False \<Longrightarrow>
   handleRequest pos srv cfg prompt h =
     (Inr chatResult,
      (withClient cfg h)
        \<lparr>requests := requests h @ [healthRequest (theClient cfg h)],
         chat := chat h @ [notRunningText]\<rparr>)"
  by (simp add: handleRequest_run Let_def)

theorem unhealthy_is_advisory_witness:
  "handleRequest (\<lambda>s. False) serviceDown None ''find a button'' host0 =
     (Inr chatResult,
      \<lparr>ragClient = Some \<lparr>baseUrl = ''http://localhost:8765''\<rparr>,
       requests = [\<lparr>reqMethod = GET, reqUrl = ''http://localhost:8765/api/health'',
                    reqBody = JUndefined\<rparr>],
       chat = [notRunningText], view = False, posted = [], notices = []\<rparr>)"
proof -
  have st: "(withClient None host0)
        \<lparr>requests := requests host0 @ [healthRequest (theClient None host0)],
         chat := chat host0 @ [notRunningText]\<rparr> =
      \<lparr>ragClient = Some \<lparr>baseUrl = ''http://localhost:8765''\<rparr>,
       requests = [\<lparr>reqMethod = GET, reqUrl = ''http://localhost:8765/api/health'',
                    reqBody = JUndefined\<rparr>],
       chat = [notRunningText], view = False, posted = [], notices = []\<rparr>"
    unfolding withClient_host0 theClient_host0 by (simp add: healthRequest_def host0_def)
  show ?thesis
    using unhealthy_is_advisory[OF serviceDown_unhealthy, of "\<lambda>s. False" "''find a button''"]
    unfolding st .
qed

section \<open>Intent detection and routing\<close>

text \<open>
  C2. \<open>determineIntent\<close> answers \<open>Explain\<close> when the lower-cased query contains
  \<open>explain\<close>, \<open>what is\<close> or \<open>tell me about\<close>; otherwise \<open>Suggest\<close> when it contains
  one of \<open>suggest\<close>, \<open>recommend\<close>, \<open>i need\<close>, \<open>i want to build\<close>, \<open>help me build\<close>;
  otherwise \<open>Search\<close>. When the service is healthy, \<open>handleRequest\<close> announces the
  search and then runs exactly the handler of that intent on the query.
\<close>

theorem determineIntent_keywords:
  "determineIntent query =
     (if containsText (toLowerCase query) ''explain'' \<or>
         containsText (toLowerCase query) ''what is'' \<or>
         containsText (toLowerCase query) ''tell me about''
      then Explain
      else if containsText (toLowerCase query) ''suggest'' \<or>
              containsText (toLowerCase query) ''recommend'' \<or>
              containsText (toLowerCase query) ''i need'' \<or>
              containsText (toLowerCase query) ''i want to build'' \<or>
              containsText (toLowerCase query) ''help me build''
      then Suggest
      else Search) \<and>
   (fst (healthCheck srv (theClient cfg h) (withClient cfg h)) = Inr True \<longrightarrow>
    handleRequest pos srv cfg query h =
      (case determineIntent query of
         Search \<Rightarrow> handleSearch pos srv cfg query
       | Suggest \<Rightarrow> handleSuggest pos srv cfg query
       | Explain \<Rightarrow> handleExplain pos srv cfg query)
      ((withClient cfg h)
         \<lparr>requests := requests h @ [healthRequest (theClient cfg h)],
          chat := chat h @ [magnifier @ '' Searching for components...'' @ nl @ nl]\<rparr>))"
proof (rule conjI)
  show "determineIntent query =
     (if containsText (toLowerCase query) ''explain'' \<or>
         containsText (toLowerCase query) ''what is'' \<or>
         containsText (toLowerCase query) ''tell me about''
      then Explain
      else if containsText (toLowerCase query) ''suggest'' \<or>
              containsText (toLowerCase query) ''recommend'' \<or>
              containsText (toLowerCase query) ''i need'' \<or>
              containsText (toLowerCase query) ''i want to build'' \<or>
              containsText (toLowerCase query) ''help me build''
      then Suggest
      else Search)"
    unfolding determineIntent_def Let_def includesStr_containsText ..
next
  show "fst (healthCheck srv (theClient cfg h) (withClient cfg h)) = Inr True \<longrightarrow>
    handleRequest pos srv cfg query h =
      (case determineIntent query of
         Search \<Rightarrow> handleSearch pos srv cfg query
       | Suggest \<Rightarrow> handleSuggest pos srv cfg query
       | Explain \<Rightarrow> handleExplain pos srv cfg query)
      ((withClient cfg h)
         \<lparr>requests := requests h @ [healthRequest (theClient cfg h)],
          chat := chat h @ [magnifier @ '' Searching for components...'' @ nl @ nl]\<rparr>)"
    unfolding handleRequest_run Let_def dispatch_cases by (rule impI) (simp only: simp_thms if_True)
qed

lemma explain_wins:
  "containsText (toLowerCase ''Suggest or EXPLAIN it'') ''explain''"
  unfolding includesStr_containsText[symmetric] by (simp add: toLowerCase_def lowerChar_def)

theorem determineIntent_keywords_witness:
  "determineIntent ''Suggest or EXPLAIN it'' = Explain \<and>
   handleRequest (\<lambda>s. False) serviceUp None ''Suggest or EXPLAIN it'' host0 =
     handleExplain (\<lambda>s. False) serviceUp None ''Suggest or EXPLAIN it''
       ((withClient None host0)
          \<lparr>requests := requests host0 @ [healthRequest (theClient None host0)],
           chat := chat host0 @ [magnifier @ '' Searching for components...'' @ nl @ nl]\<rparr>)"
proof -
  note inst = determineIntent_keywords[of "''Suggest or EXPLAIN it''" serviceUp None host0 "\<lambda>s. False"]
  have e: "determineIntent ''Suggest or EXPLAIN it'' = Explain"
    using inst[THEN conjunct1] explain_wins by (simp only: simp_thms if_True)
  have r: "handleRequest (\<lambda>s. False) serviceUp None ''Suggest or EXPLAIN it'' host0 =
     (case determineIntent ''Suggest or EXPLAIN it'' of
         Search \<Rightarrow> handleSearch (\<lambda>s. False) serviceUp None ''Suggest or EXPLAIN it''
       | Suggest \<Rightarrow> handleSuggest (\<lambda>s. False) serviceUp None ''Suggest or EXPLAIN it''
       | Explain \<Rightarrow> handleExplain (\<lambda>s. False) serviceUp None ''Suggest or EXPLAIN it'')
       ((withClient None host0)
          \<lparr>requests := requests host0 @ [healthRequest (theClient None host0)],
           chat := chat host0 @ [magnifier @ '' Searching for components...'' @ nl @ nl]\<rparr>)"
    using inst[THEN conjunct2] serviceUp_healthy by (rule mp)
  show ?thesis
    using e r by (simp only: intent.case simp_thms)
qed

section \<open>The shell degrades gracefully\<close>

lemma searchComponentsTool_run:
  "searchComponentsTool srv cfg parameters h =
     (case searchToolTry srv (theClient cfg h) parameters (withClient cfg h) of
        (Inl e, h2) \<Rightarrow> (Inr (failure ''Failed to search components: '' e), h2)
      | (Inr r, h2) \<Rightarrow> (Inr r, h2))"
  unfolding searchComponentsTool_def after_getRAGClient by (rule tryCatch_ret_run)

lemma explainComponentTool_run:
  "explainComponentTool srv cfg parameters h =
     (case explainToolTry srv (theClient cfg h) parameters (withClient cfg h) of
        (Inl e, h2) \<Rightarrow> (Inr (failure ''Failed to get component details: '' e), h2)
      | (Inr r, h2) \<Rightarrow> (Inr r, h2))"
  unfolding explainComponentTool_def after_getRAGClient by (rule tryCatch_ret_run)

lemma suggestComponentForUITool_run:
  "suggestComponentForUITool srv cfg parameters h =
     (case suggestToolTry srv (theClient cfg h) parameters (withClient cfg h) of
        (Inl e, h2) \<Rightarrow> (Inr (failure ''Failed to suggest components: '' e), h2)
      | (Inr r, h2) \<Rightarrow> (Inr r, h2))"
  unfolding suggestComponentForUITool_def after_getRAGClient by (rule tryCatch_ret_run)

lemma scanComponentFolderTool_run:
  "scanComponentFolderTool srv cfg parameters h =
     (case scanToolTry srv (theClient cfg h) parameters (withClient cfg h) of
        (Inl e, h2) \<Rightarrow> (Inr (failure ''Failed to scan folder: '' e), h2)
      | (Inr r, h2) \<Rightarrow> (Inr r, h2))"
  unfolding scanComponentFolderTool_def after_getRAGClient by (rule tryCatch_ret_run)

text \<open>
  C3. \<open>handleRequest\<close> always returns the normal chat result and never an error.
  Whatever the \<open>try\<close> block of a chat handler does, the handler returns the normal
  result; an error \<open>e\<close> thrown in the block, by the client or by the handler's own
  code, ends up as one more markdown message that names \<open>e\<close>. In the same way each of
  the four tools returns normally, and an error thrown in its \<open>try\<close> block becomes the
  result \<open>{success: false, error}\<close>.
\<close>

theorem shell_degrades_gracefully:
  "(\<exists>h'. handleRequest pos srv cfg prompt h = (Inr chatResult, h')) \<and>
   handleSearch pos srv cfg prompt h =
     (case searchTry pos srv (theClient cfg h) prompt (withClient cfg h) of
        (Inl e, h2) \<Rightarrow> (Inr chatResult, h2\<lparr>chat := chat h2 @ [''Failed to search: '' @ errStr e]\<rparr>)
      | (Inr r, h2) \<Rightarrow> (Inr chatResult, h2)) \<and>
   handleSuggest pos srv cfg prompt h =
     (case suggestTry pos srv (theClient cfg h) prompt (withClient cfg h) of
        (Inl e, h2) \<Rightarrow>
          (Inr chatResult, h2\<lparr>chat := chat h2 @ [''Failed to get suggestions: '' @ errStr e]\<rparr>)
      | (Inr r, h2) \<Rightarrow> (Inr chatResult, h2)) \<and>
   handleExplain pos srv cfg prompt h =
     (case explainTry pos srv (theClient cfg h) prompt (withClient cfg h) of
        (Inl e, h2) \<Rightarrow>
          (Inr chatResult, h2\<lparr>chat := chat h2 @ [''Failed to explain component: '' @ errStr e]\<rparr>)
      | (Inr r, h2) \<Rightarrow> (Inr chatResult, h2)) \<and>
   searchComponentsTool srv cfg parameters h =
     (case searchToolTry srv (theClient cfg h) parameters (withClient cfg h) of
        (Inl e, h2) \<Rightarrow> (Inr (failure ''Failed to search components: '' e), h2)
      | (Inr r, h2) \<Rightarrow> (Inr r, h2)) \<and>
   explainComponentTool srv cfg parameters h =
     (case explainToolTry srv (theClient cfg h) parameters (withClient cfg h) of
        (Inl e, h2) \<Rightarrow> (Inr (failure ''Failed to get component details: '' e), h2)
      | (Inr r, h2) \<Rightarrow> (Inr r, h2)) \<and>
   suggestComponentForUITool srv cfg parameters h =
     (case suggestToolTry srv (theClient cfg h) parameters (withClient cfg h) of
        (Inl e, h2) \<Rightarrow> (Inr (failure ''Failed to suggest components: '' e), h2)
      | (Inr r, h2) \<Rightarrow> (Inr r, h2)) \<and>
   scanComponentFolderTool srv cfg parameters h =
     (case scanToolTry srv (theClient cfg h) parameters (withClient cfg h) of
        (Inl e, h2) \<Rightarrow> (Inr (failure ''Failed to scan folder: '' e), h2)
      | (Inr r, h2) \<Rightarrow> (Inr r, h2)) \<and>
   isFailure (failure what e)"
  by (intro conjI handleRequest_returns handleSearch_run handleSuggest_run handleExplain_run
        searchComponentsTool_run explainComponentTool_run suggestComponentForUITool_run
        scanComponentFolderTool_run)
     (simp add: failure_def)

lemma withClient_fields:
  "requests (withClient cfg h) = requests h"
  "chat (withClient cfg h) = chat h"
  "view (withClient cfg h) = view h"
  "posted (withClient cfg h) = posted h"
  "notices (withClient cfg h) = notices h"
  "ragClient (withClient cfg h) = Some (theClient cfg h)"
  by (simp_all add: withClient_def)

lemma searchTry_down:
  "searchTry (\<lambda>s. False) serviceDown (theClient None host0) ''find a button''
     (withClient None host0) =
   (Inl (Error ''Failed to search components''),
    (withClient None host0)
      \<lparr>requests := [\<lparr>reqMethod = POST, reqUrl = ''http://localhost:8765/api/search'',
                      reqBody = JObj [(''query'', JStr ''find a button''), (''limit'', JNum 5)]\<rparr>]\<rparr>)"
  unfolding theClient_host0 withClient_host0
  by (simp add: searchTry_def searchComponents_def tryCatch_def bind_def axios_def throw_def
        serviceDown_def host0_def)

lemma searchToolTry_down:
  "searchToolTry serviceDown (theClient None host0) (JObj [(''query'', JStr ''button'')])
     (withClient None host0) =
   (Inl (Error ''Failed to search components''),
    (withClient None host0)
      \<lparr>requests := [\<lparr>reqMethod = POST, reqUrl = ''http://localhost:8765/api/search'',
                      reqBody = JObj [(''query'', JStr ''button''), (''limit'', JNum 10)]\<rparr>]\<rparr>)"
  unfolding theClient_host0 withClient_host0
  by (simp add: searchToolTry_def searchComponents_def tryCatch_def bind_def axios_def throw_def
        lift_def logicalOr_def serviceDown_def host0_def)

theorem shell_degrades_gracefully_witness:
  "fst (handleRequest (\<lambda>s. False) serviceDown None ''find a button'' host0) = Inr chatResult \<and>
   handleSearch (\<lambda>s. False) serviceDown None ''find a button'' host0 =
     (Inr chatResult,
      (withClient None host0)
        \<lparr>requests := [\<lparr>reqMethod = POST, reqUrl = ''http://localhost:8765/api/search'',
                        reqBody = JObj [(''query'', JStr ''find a button''), (''limit'', JNum 5)]\<rparr>],
         chat := [''Failed to search: Error: Failed to search components'']\<rparr>) \<and>
   searchComponentsTool serviceDown None (JObj [(''query'', JStr ''button'')]) host0 =
     (Inr (JObj [(''success'', JBool False),
                 (''error'', JStr ''Failed to search components: Error: Failed to search components'')]),
      (withClient None host0)
        \<lparr>requests := [\<lparr>reqMethod = POST, reqUrl = ''http://localhost:8765/api/search'',
                        reqBody = JObj [(''query'', JStr ''button''), (''limit'', JNum 10)]\<rparr>]\<rparr>)"
proof -
  note inst = shell_degrades_gracefully[of "\<lambda>s. False" serviceDown None "''find a button''" host0
      "JObj [(''query'', JStr ''button'')]"]
  from inst[THEN conjunct1]
  have 1: "fst (handleRequest (\<lambda>s. False) serviceDown None ''find a button'' host0) = Inr chatResult"
    by auto
  from inst[THEN conjunct2, THEN conjunct1]
  have 2: "handleSearch (\<lambda>s. False) serviceDown None ''find a button'' host0 =
     (Inr chatResult,
      (withClient None host0)
        \<lparr>requests := [\<lparr>reqMethod = POST, reqUrl = ''http://localhost:8765/api/search'',
                        reqBody = JObj [(''query'', JStr ''find a button''), (''limit'', JNum 5)]\<rparr>],
         chat := [''Failed to search: Error: Failed to search components'']\<rparr>)"
    unfolding searchTry_down by (simp add: errStr_def withClient_fields host0_def)
  from inst[THEN conjunct2, THEN conjunct2, THEN conjunct2, THEN conjunct2, THEN conjunct1]
  have 3: "searchComponentsTool serviceDown None (JObj [(''query'', JStr ''button'')]) host0 =
     (Inr (JObj [(''success'', JBool False),
                 (''error'', JStr ''Failed to search components: Error: Failed to search components'')]),
      (withClient None host0)
        \<lparr>requests := [\<lparr>reqMethod = POST, reqUrl = ''http://localhost:8765/api/search'',
                        reqBody = JObj [(''query'', JStr ''button''), (''limit'', JNum 10)]\<rparr>]\<rparr>)"
    unfolding searchToolTry_down by (simp add: failure_def errStr_def)
  from 1 2 3 show ?thesis by (intro conjI)
qed

section \<open>Limits forwarded by the tools\<close>

lemma bind_lift_Inr: "bind (lift (Inr x)) f = f x"
  by (rule ext) (simp add: bind_def lift_def)

lemma bind_lift_Inl: "bind (lift (Inl e)) f = throw e"
  by (rule ext) (simp add: bind_def lift_def throw_def)

lemma nullish_getProp: "nullish v \<Longrightarrow> \<exists>e. getProp v k = Inl e"
  by (auto simp: nullish_def)

lemma requests_after_lifts:
  "requests (snd (bind m (\<lambda>x. bind (lift (a x)) (\<lambda>y. bind (lift (b x y)) (\<lambda>z. ret (c x y z)))) h)) =
   requests (snd (m h))"
  by (cases "m h") (auto simp: bind_def lift_def ret_def split: sum.splits prod.splits)

lemma searchComponents_requests:
  "requests (snd (searchComponents srv c body h)) =
     requests h @ [\<lparr>reqMethod = POST, reqUrl = baseUrl c @ ''/api/search'', reqBody = wire body\<rparr>]"
  by (simp add: searchComponents_def tryCatch_def axios_def throw_def Let_def split: sum.splits)

lemma suggestComponents_requests:
  "limit \<noteq> JUndefined \<Longrightarrow>
   requests (snd (suggestComponents srv c query limit h)) =
     requests h @ [\<lparr>reqMethod = POST, reqUrl = baseUrl c @ ''/api/search/suggest'',
                    reqBody = wire (JObj [(''query'', query), (''limit'', limit)])\<rparr>]"
  by (simp add: suggestComponents_def tryCatch_def axios_def throw_def Let_def split: sum.splits)

lemma snd_case_result:
  "snd (case x of (Inl e, h2) \<Rightarrow> (f e, h2) | (Inr r, h2) \<Rightarrow> (g r, h2)) = snd x"
  by (cases x) (auto split: sum.splits)

lemma truthy_defined: "truthy l \<Longrightarrow> l \<noteq> JUndefined"
  by auto

text \<open>
  C9. The search tool sends \<open>parameters.limit\<close> when it is truthy and 10 otherwise, the
  suggest tool \<open>parameters.limit\<close> when truthy and 5 otherwise, in the one request each
  of them makes; when \<open>parameters\<close> is \<open>null\<close> or \<open>undefined\<close> no request is made. The
  limit that is sent is therefore never 0.
\<close>

theorem tools_default_limits:
  "(getProp parameters ''query'' = Inr q \<longrightarrow> getProp parameters ''limit'' = Inr l \<longrightarrow>
      requests (snd (searchComponentsTool srv cfg parameters h)) =
        requests h @
          [\<lparr>reqMethod = POST, reqUrl = baseUrl (theClient cfg h) @ ''/api/search'',
            reqBody = wire (JObj [(''query'', q), (''limit'', if truthy l then l else JNum 10)])\<rparr>]) \<and>
   (getProp parameters ''uiDescription'' = Inr d \<longrightarrow> getProp parameters ''limit'' = Inr l \<longrightarrow>
      requests (snd (suggestComponentForUITool srv cfg parameters h)) =
        requests h @
          [\<lparr>reqMethod = POST, reqUrl = baseUrl (theClient cfg h) @ ''/api/search/suggest'',
            reqBody = wire (JObj [(''query'', d), (''limit'', if truthy l then l else JNum 5)])\<rparr>]) \<and>
   (nullish parameters \<longrightarrow>
      requests (snd (searchComponentsTool srv cfg parameters h)) = requests h \<and>
      requests (snd (suggestComponentForUITool srv cfg parameters h)) = requests h) \<and>
   (if truthy l then l else JNum 10) \<noteq> JNum 0 \<and>
   (if truthy l then l else JNum 5) \<noteq> JNum 0"
proof (intro conjI impI)
  assume "getProp parameters ''query'' = Inr q" "getProp parameters ''limit'' = Inr l"
  then show "requests (snd (searchComponentsTool srv cfg parameters h)) =
        requests h @
          [\<lparr>reqMethod = POST, reqUrl = baseUrl (theClient cfg h) @ ''/api/search'',
            reqBody = wire (JObj [(''query'', q), (''limit'', if truthy l then l else JNum 10)])\<rparr>]"
    by (simp add: searchComponentsTool_run snd_case_result searchToolTry_def bind_lift_Inr
          requests_after_lifts searchComponents_requests logicalOr_def withClient_fields)
next
  assume "getProp parameters ''uiDescription'' = Inr d" "getProp parameters ''limit'' = Inr l"
  moreover have "logicalOr l (JNum 5) \<noteq> JUndefined"
    by (cases l) (simp_all add: logicalOr_def)
  ultimately show "requests (snd (suggestComponentForUITool srv cfg parameters h)) =
        requests h @
          [\<lparr>reqMethod = POST, reqUrl = baseUrl (theClient cfg h) @ ''/api/search/suggest'',
            reqBody = wire (JObj [(''query'', d), (''limit'', if truthy l then l else JNum 5)])\<rparr>]"
    using suggestComponents_requests[of "logicalOr l (JNum 5)" srv "theClient cfg h" d "withClient cfg h"]
    by (simp add: suggestComponentForUITool_run snd_case_result suggestToolTry_def bind_lift_Inr
          requests_after_lifts logicalOr_def withClient_fields)
next
  assume n: "nullish parameters"
  then obtain e where "getProp parameters ''query'' = Inl e" using nullish_getProp by blast
  then show "requests (snd (searchComponentsTool srv cfg parameters h)) = requests h"
    by (simp add: searchComponentsTool_run snd_case_result searchToolTry_def bind_lift_Inl
          throw_def withClient_fields)
  from n obtain e' where "getProp parameters ''uiDescription'' = Inl e'"
    using nullish_getProp by blast
  then show "requests (snd (suggestComponentForUITool srv cfg parameters h)) = requests h"
    by (simp add: suggestComponentForUITool_run snd_case_result suggestToolTry_def bind_lift_Inl
          throw_def withClient_fields)
next
  show "(if truthy l then l else JNum 10) \<noteq> JNum 0" by auto
  show "(if truthy l then l else JNum 5) \<noteq> JNum 0" by auto
qed

theorem tools_default_limits_witness:
  "requests (snd (searchComponentsTool serviceDown None
      (JObj [(''query'', JStr ''button''), (''limit'', JNum 0)]) host0)) =
     [\<lparr>reqMethod = POST, reqUrl = ''http://localhost:8765/api/search'',
       reqBody = JObj [(''query'', JStr ''button''), (''limit'', JNum 10)]\<rparr>] \<and>
   requests (snd (suggestComponentForUITool serviceDown None
      (JObj [(''uiDescription'', JStr ''a card''), (''limit'', JNum 3)]) host0)) =
     [\<lparr>reqMethod = POST, reqUrl = ''http://localhost:8765/api/search/suggest'',
       reqBody = JObj [(''query'', JStr ''a card''), (''limit'', JNum 3)]\<rparr>] \<and>
   requests (snd (searchComponentsTool serviceDown None JNull host0)) = []"
proof -
  have 1: "requests (snd (searchComponentsTool serviceDown None
      (JObj [(''query'', JStr ''button''), (''limit'', JNum 0)]) host0)) =
     [\<lparr>reqMethod = POST, reqUrl = ''http://localhost:8765/api/search'',
       reqBody = JObj [(''query'', JStr ''button''), (''limit'', JNum 10)]\<rparr>]"
    using tools_default_limits[of "JObj [(''query'', JStr ''button''), (''limit'', JNum 0)]"
        "JStr ''button''" "JNum 0" serviceDown None host0, THEN conjunct1]
    by (simp add: theClient_host0) (simp add: host0_def)
  have 2: "requests (snd (suggestComponentForUITool serviceDown None
      (JObj [(''uiDescription'', JStr ''a card''), (''limit'', JNum 3)]) host0)) =
     [\<lparr>reqMethod = POST, reqUrl = ''http://localhost:8765/api/search/suggest'',
       reqBody = JObj [(''query'', JStr ''a card''), (''limit'', JNum 3)]\<rparr>]"
    using tools_default_limits[of "JObj [(''uiDescription'', JStr ''a card''), (''limit'', JNum 3)]"
        _ "JNum 3" serviceDown None host0 "JStr ''a card''", THEN conjunct2, THEN conjunct1]
    by (simp add: theClient_host0) (simp add: host0_def)
  have 3: "requests (snd (searchComponentsTool serviceDown None JNull host0)) = []"
    using tools_default_limits[of JNull _ _ serviceDown None host0,
        THEN conjunct2, THEN conjunct2, THEN conjunct1]
    by (simp add: nullish_def host0_def)
  from 1 2 3 show ?thesis by (intro conjI)
qed

section \<open>Explaining a component by name\<close>

lemma tryCatch_bind_Inr: "m h = (Inr v, h') \<Longrightarrow> tryCatch (bind m f) c h = tryCatch (f v) c h'"
  by (simp add: tryCatch_def bind_def)

lemma bind_Inr: "m h = (Inr v, h') \<Longrightarrow> bind m f h = f v h'"
  by (simp add: bind_def)

lemma firstCapture_nonempty: "firstCapture ps q = Some n \<Longrightarrow> n \<noteq> []"
  by (induction ps) (auto split: option.splits if_splits)

lemma extractComponentName_nonempty: "extractComponentName q = Some n \<Longrightarrow> n \<noteq> []"
  unfolding extractComponentName_def by (rule firstCapture_nonempty)

lemma length_is_zero: "strictEq (JNum (int (length xs))) (JNum 0) = (xs = [])"
  by simp

lemma tool_result_total:
  "\<exists>v h'. (case (x :: (jsError + json) \<times> host) of
             (Inl e, h2) \<Rightarrow> (Inr (d e), h2) | (Inr r, h2) \<Rightarrow> (Inr r, h2)) = (Inr v, h')"
  by (cases x) (auto split: sum.splits)

lemma explainToolTry_found:
  assumes "getProp parameters ''componentName'' = Inr name"
    and "getComponentsByName srv c name h1 = (Inr (JArr comps), h2)"
  shows "explainToolTry srv c parameters h1 =
     (case comps of
        [] \<Rightarrow>
          (Inr (JObj [(''success'', JBool False),
                      (''error'', JStr (''Component '' @ dq @ toStr name @ dq @ '' not found''))]),
           h2)
      | first # others \<Rightarrow>
          (case explainFields first of
             Inl e \<Rightarrow> (Inl e, h2)
           | Inr details \<Rightarrow> (Inr (JObj [(''success'', JBool True), (''component'', details)]), h2)))"
  using assms
  by (cases comps)
     (simp_all add: explainToolTry_def bind_lift_Inr bind_Inr ret_def bind_def lift_def
        split: sum.splits)

lemma explainTry_found:
  assumes "extractComponentName query = Some qname"
    and "getComponentsByName srv c (JStr qname) h1 = (Inr (JArr comps), h2)"
  shows "explainTry pos srv c query h1 =
     (case comps of
        [] \<Rightarrow> (Inr chatResult,
               h2\<lparr>chat := chat h2 @ [''Component '' @ dq @ qname @ dq @
                                       '' not found in the knowledge base.'']\<rparr>)
      | first # others \<Rightarrow> bind (explainComponent pos first) (\<lambda>u. ret chatResult) h2)"
  using assms extractComponentName_nonempty[OF assms(1)]
  by (cases comps)
     (simp_all add: explainTry_def bind_lift_Inr bind_Inr markdown_then_ret)

text \<open>
  C8. Neither the explain tool nor the chat handler \<open>handleExplain\<close> ever throws.
  When \<open>getComponentsByName\<close> returns the empty array, the tool answers
  \<open>{success: false}\<close> with the not-found message and the chat handler writes its
  not-found message. When it returns a non-empty array, what the tool returns and
  what the chat handler writes is computed from the first element alone: the others
  do not occur on the right-hand side.
\<close>

theorem explain_by_name:
  "(\<exists>v h'. explainComponentTool srv cfg parameters h = (Inr v, h')) \<and>
   (\<exists>h'. handleExplain pos srv cfg query h = (Inr chatResult, h')) \<and>
   (getProp parameters ''componentName'' = Inr name \<longrightarrow>
    getComponentsByName srv (theClient cfg h) name (withClient cfg h) = (Inr (JArr comps), h2) \<longrightarrow>
    explainComponentTool srv cfg parameters h =
      (case comps of
         [] \<Rightarrow>
           (Inr (JObj [(''success'', JBool False),
                       (''error'', JStr (''Component '' @ dq @ toStr name @ dq @ '' not found''))]),
            h2)
       | first # others \<Rightarrow>
           (case explainFields first of
              Inl e \<Rightarrow> (Inr (failure ''Failed to get component details: '' e), h2)
            | Inr details \<Rightarrow>
                (Inr (JObj [(''success'', JBool True), (''component'', details)]), h2)))) \<and>
   (extractComponentName query = Some qname \<longrightarrow>
    getComponentsByName srv (theClient cfg h) (JStr qname) (withClient cfg h) =
      (Inr (JArr comps'), h2') \<longrightarrow>
    handleExplain pos srv cfg query h =
      (case comps' of
         [] \<Rightarrow>
           (Inr chatResult,
            h2'\<lparr>chat := chat h2' @ [''Component '' @ dq @ qname @ dq @
                                      '' not found in the knowledge base.'']\<rparr>)
       | first # others \<Rightarrow>
           (case explainComponent pos first h2' of
              (Inl e, h3) \<Rightarrow>
                (Inr chatResult,
                 h3\<lparr>chat := chat h3 @ [''Failed to explain component: '' @ errStr e]\<rparr>)
            | (Inr u, h3) \<Rightarrow> (Inr chatResult, h3))))"
proof (intro conjI impI)
  show "\<exists>v h'. explainComponentTool srv cfg parameters h = (Inr v, h')"
    unfolding explainComponentTool_run by (rule tool_result_total)
  show "\<exists>h'. handleExplain pos srv cfg query h = (Inr chatResult, h')"
    unfolding handleExplain_run by (rule case_result_total)
next
  assume "getProp parameters ''componentName'' = Inr name"
    and "getComponentsByName srv (theClient cfg h) name (withClient cfg h) = (Inr (JArr comps), h2)"
  then show "explainComponentTool srv cfg parameters h =
      (case comps of
         [] \<Rightarrow>
           (Inr (JObj [(''success'', JBool False),
                       (''error'', JStr (''Component '' @ dq @ toStr name @ dq @ '' not found''))]),
            h2)
       | first # others \<Rightarrow>
           (case explainFields first of
              Inl e \<Rightarrow> (Inr (failure ''Failed to get component details: '' e), h2)
            | Inr details \<Rightarrow>
                (Inr (JObj [(''success'', JBool True), (''component'', details)]), h2)))"
    unfolding explainComponentTool_run
    by (simp add: explainToolTry_found split: list.splits sum.splits)
next
  assume "extractComponentName query = Some qname"
    and "getComponentsByName srv (theClient cfg h) (JStr qname) (withClient cfg h) =
      (Inr (JArr comps'), h2')"
  then show "handleExplain pos srv cfg query h =
      (case comps' of
         [] \<Rightarrow>
           (Inr chatResult,
            h2'\<lparr>chat := chat h2' @ [''Component '' @ dq @ qname @ dq @
                                      '' not found in the knowledge base.'']\<rparr>)
       | first # others \<Rightarrow>
           (case explainComponent pos first h2' of
              (Inl e, h3) \<Rightarrow>
                (Inr chatResult,
                 h3\<lparr>chat := chat h3 @ [''Failed to explain component: '' @ errStr e]\<rparr>)
            | (Inr u, h3) \<Rightarrow> (Inr chatResult, h3)))"
    unfolding handleExplain_run
    by (simp add: explainTry_found bind_def ret_def split: list.splits sum.splits prod.splits)
qed


lemma byName_Modal:
  "getComponentsByName serviceUp (theClient None host0) (JStr ''Modal'') (withClient None host0) =
     (Inr (JArr []),
      (withClient None host0)
        \<lparr>requests := [\<lparr>reqMethod = GET,
                        reqUrl = ''http://localhost:8765/api/components/name/Modal'',
                        reqBody = JUndefined\<rparr>]\<rparr>)"
  unfolding theClient_host0 withClient_host0
  by (simp add: getComponentsByName_def tryCatch_def axios_def serviceUp_def host0_def)

lemma byName_Button:
  "getComponentsByName serviceUp (theClient None host0) (JStr ''Button'') (withClient None host0) =
     (Inr (JArr [buttonComponent, cardComponent]),
      (withClient None host0)
        \<lparr>requests := [\<lparr>reqMethod = GET,
                        reqUrl = ''http://localhost:8765/api/components/name/Button'',
                        reqBody = JUndefined\<rparr>]\<rparr>)"
  unfolding theClient_host0 withClient_host0
  by (simp add: getComponentsByName_def tryCatch_def axios_def serviceUp_def host0_def)

lemma extract_Modal: "extractComponentName ''explain Modal'' = Some ''Modal''"
  by (simp add: extractComponentName_def patterns_def wsLen_def isWordChar_def toLowerCase_def
        lowerChar_def)

lemma extract_Button: "extractComponentName ''explain Button'' = Some ''Button''"
  by (simp add: extractComponentName_def patterns_def wsLen_def isWordChar_def toLowerCase_def
        lowerChar_def)

lemma explainFields_button:
  "explainFields buttonComponent =
     Inr (JObj [(''name'', JStr ''Button''), (''description'', JStr ''A clickable button''),
                (''filePath'', JStr ''/ui/Button.tsx''), (''importPath'', JStr ''@ui/button''),
                (''exportType'', JUndefined),
                (''props'', JArr [JObj [(''name'', JStr ''label''), (''type'', JStr ''string''),
                                        (''required'', JBool True)]]),
                (''examples'', JArr []), (''themeWrapper'', JUndefined),
                (''category'', JUndefined), (''tags'', JUndefined)])"
  by (simp add: explainFields_def buttonComponent_def bindE_def)

lemma explainComponent_button:
  "explainComponent (\<lambda>s. False) buttonComponent h =
     (Inr (),
      h\<lparr>chat := chat h @
         [''# Button'' @ nl @ nl,
          ''A clickable button'' @ nl @ nl,
          ''**Import:**'' @ nl @ ''```tsx'' @ nl @ ''import { Button } from '' @ sq @ ''@ui/button'' @
            sq @ '';'' @ nl @ ''```'' @ nl @ nl,
          ''## Props'' @ nl @ nl,
          ''- **label**: `string` (required)'' @ nl,
          nl]\<rparr>)"
  by (simp add: explainComponent_def buttonComponent_def bind_def lift_def ret_def markdown_def
        importLine_def nonEmpty_def forOf_def explainProp_def)

theorem explain_by_name_witness:
  "explainComponentTool serviceUp None (JObj [(''componentName'', JStr ''Modal'')]) host0 =
     (Inr (JObj [(''success'', JBool False),
                 (''error'', JStr (''Component '' @ dq @ ''Modal'' @ dq @ '' not found''))]),
      (withClient None host0)
        \<lparr>requests := [\<lparr>reqMethod = GET,
                        reqUrl = ''http://localhost:8765/api/components/name/Modal'',
                        reqBody = JUndefined\<rparr>]\<rparr>) \<and>
   fst (explainComponentTool serviceUp None (JObj [(''componentName'', JStr ''Button'')]) host0) =
     Inr (JObj [(''success'', JBool True),
                (''component'',
                 JObj [(''name'', JStr ''Button''), (''description'', JStr ''A clickable button''),
                       (''filePath'', JStr ''/ui/Button.tsx''), (''importPath'', JStr ''@ui/button''),
                       (''exportType'', JUndefined),
                       (''props'', JArr [JObj [(''name'', JStr ''label''), (''type'', JStr ''string''),
                                               (''required'', JBool True)]]),
                       (''examples'', JArr []), (''themeWrapper'', JUndefined),
                       (''category'', JUndefined), (''tags'', JUndefined)])]) \<and>
   chat (snd (handleExplain (\<lambda>s. False) serviceUp None ''explain Modal'' host0)) =
     [''Component '' @ dq @ ''Modal'' @ dq @ '' not found in the knowledge base.''] \<and>
   chat (snd (handleExplain (\<lambda>s. False) serviceUp None ''explain Button'' host0)) =
     [''# Button'' @ nl @ nl,
      ''A clickable button'' @ nl @ nl,
      ''**Import:**'' @ nl @ ''```tsx'' @ nl @ ''import { Button } from '' @ sq @ ''@ui/button'' @
        sq @ '';'' @ nl @ ''```'' @ nl @ nl,
      ''## Props'' @ nl @ nl,
      ''- **label**: `string` (required)'' @ nl,
      nl]"
proof -
  have p1: "getProp (JObj [(''componentName'', JStr ''Modal'')]) ''componentName'' = Inr (JStr ''Modal'')"
    by simp
  have p2: "getProp (JObj [(''componentName'', JStr ''Button'')]) ''componentName'' = Inr (JStr ''Button'')"
    by simp
  note t = explain_by_name[THEN conjunct2, THEN conjunct2, THEN conjunct1, rule_format]
  note c = explain_by_name[THEN conjunct2, THEN conjunct2, THEN conjunct2, rule_format]
  have 1: "explainComponentTool serviceUp None (JObj [(''componentName'', JStr ''Modal'')]) host0 =
     (Inr (JObj [(''success'', JBool False),
                 (''error'', JStr (''Component '' @ dq @ ''Modal'' @ dq @ '' not found''))]),
      (withClient None host0)
        \<lparr>requests := [\<lparr>reqMethod = GET,
                        reqUrl = ''http://localhost:8765/api/components/name/Modal'',
                        reqBody = JUndefined\<rparr>]\<rparr>)"
    using t[OF p1 byName_Modal] by simp
  have 2: "fst (explainComponentTool serviceUp None (JObj [(''componentName'', JStr ''Button'')]) host0) =
     Inr (JObj [(''success'', JBool True),
                (''component'',
                 JObj [(''name'', JStr ''Button''), (''description'', JStr ''A clickable button''),
                       (''filePath'', JStr ''/ui/Button.tsx''), (''importPath'', JStr ''@ui/button''),
                       (''exportType'', JUndefined),
                       (''props'', JArr [JObj [(''name'', JStr ''label''), (''type'', JStr ''string''),
                                               (''required'', JBool True)]]),
                       (''examples'', JArr []), (''themeWrapper'', JUndefined),
                       (''category'', JUndefined), (''tags'', JUndefined)])])"
    using t[OF p2 byName_Button] by (simp add: explainFields_button)
  have 3: "chat (snd (handleExplain (\<lambda>s. False) serviceUp None ''explain Modal'' host0)) =
     [''Component '' @ dq @ ''Modal'' @ dq @ '' not found in the knowledge base.'']"
    using c[OF extract_Modal byName_Modal, of "\<lambda>s. False"]
    by (simp add: withClient_fields host0_def)
  have 4: "chat (snd (handleExplain (\<lambda>s. False) serviceUp None ''explain Button'' host0)) =
     [''# Button'' @ nl @ nl,
      ''A clickable button'' @ nl @ nl,
      ''**Import:**'' @ nl @ ''```tsx'' @ nl @ ''import { Button } from '' @ sq @ ''@ui/button'' @
        sq @ '';'' @ nl @ ''```'' @ nl @ nl,
      ''## Props'' @ nl @ nl,
      ''- **label**: `string` (required)'' @ nl,
      nl]"
    using c[OF extract_Button byName_Button, of "\<lambda>s. False"]
    by (simp add: explainComponent_button withClient_fields host0_def)
  from 1 2 3 4 show ?thesis by (intro conjI)
qed

section \<open>The scan request\<close>

lemma lifts3_state:
  "snd (bind (lift a) (\<lambda>x. bind (lift (b x)) (\<lambda>y. bind (lift (c x y)) (\<lambda>z. ret (r x y z)))) h) = h"
  by (cases a) (auto simp: bind_def lift_def ret_def split: sum.splits)

lemma tryCatch_throw_state: "snd (tryCatch m (\<lambda>e. throw (E e)) h) = snd (m h)"
  by (cases "m h") (auto simp: tryCatch_def throw_def split: sum.splits)

lemma axios_run:
  "axios srv c m path body h =
     (srv (requests h) \<lparr>reqMethod = m, reqUrl = baseUrl c @ path, reqBody = wire body\<rparr>,
      h\<lparr>requests := requests h @
           [\<lparr>reqMethod = m, reqUrl = baseUrl c @ path, reqBody = wire body\<rparr>]\<rparr>)"
  by (simp add: axios_def Let_def)

lemma snd_bind_axios:
  assumes "\<And>x h'. snd (f x h') = h'"
  shows "snd (bind (axios srv c m path body) f h) =
     h\<lparr>requests := requests h @
          [\<lparr>reqMethod = m, reqUrl = baseUrl c @ path, reqBody = wire body\<rparr>]\<rparr>"
proof (cases "srv (requests h) \<lparr>reqMethod = m, reqUrl = baseUrl c @ path, reqBody = wire body\<rparr>")
  case (Inl e)
  then show ?thesis by (simp add: bind_def axios_run)
next
  case (Inr d)
  then show ?thesis using assms by (simp add: bind_def axios_run)
qed

lemma scanFolder_unfold:
  assumes "getProp request ''folderPath'' = Inr fp"
    and "getProp request ''includeStorybooks'' = Inr sb"
    and "getProp request ''includeTests'' = Inr te"
    and "getProp request ''recursive'' = Inr rc"
  shows "scanFolder srv c request =
     tryCatch
       (bind (axios srv c POST ''/api/scan'' (pythonRequest fp sb te rc)) (\<lambda>data.
        bind (lift (getProp data ''components_found'')) (\<lambda>components_found.
        bind (lift (getProp data ''components'')) (\<lambda>components.
        bind (lift (getProp data ''errors'')) (\<lambda>errors.
        ret (JObj
              [(''componentsFound'', components_found),
               (''components'', components),
               (''errors'', logicalOr errors (JArr []))]))))))
       (\<lambda>error. throw (Error ''Failed to scan folder''))"
  unfolding scanFolder_def assms bind_lift_Inr ..


lemma pythonRequest_fields:
  "pythonRequest fp sb te rc =
     JObj [(''folder_path'', fp),
           (''include_storybooks'', if sb = JUndefined \<or> sb = JNull then JBool True else sb),
           (''include_tests'', if te = JUndefined \<or> te = JNull then JBool False else te),
           (''recursive'', if rc = JUndefined \<or> rc = JNull then JBool True else rc)]"
  by (simp add: pythonRequest_def nullishOr_def nullish_def)

lemma scanFolder_sent:
  assumes "getProp request ''folderPath'' = Inr fp"
    and "getProp request ''includeStorybooks'' = Inr sb"
    and "getProp request ''includeTests'' = Inr te"
    and "getProp request ''recursive'' = Inr rc"
  shows "snd (scanFolder srv c request h) =
     h\<lparr>requests := requests h @
       [\<lparr>reqMethod = POST, reqUrl = baseUrl c @ ''/api/scan'',
         reqBody = wire (pythonRequest fp sb te rc)\<rparr>]\<rparr>"
  unfolding scanFolder_unfold[OF assms] tryCatch_throw_state
  by (rule snd_bind_axios) (rule lifts3_state)

lemma scanFolder_result:
  assumes "getProp request ''folderPath'' = Inr fp"
    and "getProp request ''includeStorybooks'' = Inr sb"
    and "getProp request ''includeTests'' = Inr te"
    and "getProp request ''recursive'' = Inr rc"
    and "srv (requests h)
           \<lparr>reqMethod = POST, reqUrl = baseUrl c @ ''/api/scan'',
            reqBody = wire (pythonRequest fp sb te rc)\<rparr> = Inr data"
    and "getProp data ''components_found'' = Inr n"
    and "getProp data ''components'' = Inr cs"
    and "getProp data ''errors'' = Inr es"
  shows "fst (scanFolder srv c request h) =
     Inr (JObj [(''componentsFound'', n), (''components'', cs),
                (''errors'', if truthy es then es else JArr [])])"
proof -
  have a: "axios srv c POST ''/api/scan'' (pythonRequest fp sb te rc) h =
      (Inr data, h\<lparr>requests := requests h @
         [\<lparr>reqMethod = POST, reqUrl = baseUrl c @ ''/api/scan'',
           reqBody = wire (pythonRequest fp sb te rc)\<rparr>]\<rparr>)"
    using assms(5) by (simp add: axios_run)
  show ?thesis
    unfolding scanFolder_unfold[OF assms(1-4)]
      tryCatch_bind_Inr[where m = "axios srv c POST ''/api/scan'' (pythonRequest fp sb te rc)"
        and h = h, OF a]
      assms(6-8) bind_lift_Inr
    by (simp add: tryCatch_def ret_def logicalOr_def)
qed


lemma wire_pythonRequest:
  "wire (pythonRequest fp sb te rc) =
     JObj ((if fp = JUndefined then [] else [(''folder_path'', wire fp)]) @
           [(''include_storybooks'',
               wire (if sb = JUndefined \<or> sb = JNull then JBool True else sb)),
            (''include_tests'',
               wire (if te = JUndefined \<or> te = JNull then JBool False else te)),
            (''recursive'',
               wire (if rc = JUndefined \<or> rc = JNull then JBool True else rc))])"
  by (simp add: pythonRequest_fields)

text \<open>
  C6, as stated, fails on two counts. The result's \<open>errors\<close> is
  \<open>response.data.errors || []\<close>: a truthy value that is not an array passes through
  unchanged, so when the service answers a scan of \<open>{folderPath: "/ui"}\<close> with
  \<open>{components_found: 0, components: [], errors: "boom"}\<close>, the result's \<open>errors\<close> is
  the string \<open>"boom"\<close>, not an array. And \<open>folder_path\<close> is \<open>request.folderPath\<close>, which
  is \<open>undefined\<close> for a request that has no such field and is then left out of the
  body: the request \<open>{folder_path: "/ui", include_storybooks: true, include_tests:
  false, recursive: true}\<close>, which is how \<open>extension.ts\<close> builds it, puts the three
  flags on the wire and no \<open>folder_path\<close>.
\<close>

theorem scanFolder_contract_counterexample:
  "fst (scanFolder serviceBoom \<lparr>baseUrl = ''http://localhost:8765''\<rparr>
      (JObj [(''folderPath'', JStr ''/ui'')]) host0) =
     Inr (JObj [(''componentsFound'', JNum 0), (''components'', JArr []),
                (''errors'', JStr ''boom'')]) \<and>
   requests (snd (scanFolder serviceUp \<lparr>baseUrl = ''http://localhost:8765''\<rparr>
      (JObj [(''folder_path'', JStr ''/ui''), (''include_storybooks'', JBool True),
             (''include_tests'', JBool False), (''recursive'', JBool True)]) host0)) =
     [\<lparr>reqMethod = POST, reqUrl = ''http://localhost:8765/api/scan'',
       reqBody = JObj [(''include_storybooks'', JBool True),
                       (''include_tests'', JBool False), (''recursive'', JBool True)]\<rparr>]"
proof -
  let ?c = "\<lparr>baseUrl = ''http://localhost:8765''\<rparr>"
  let ?req = "JObj [(''folderPath'', JStr ''/ui'')]"
  let ?data = "JObj [(''components_found'', JNum 0), (''components'', JArr []),
                     (''errors'', JStr ''boom'')]"
  have r: "getProp ?req ''folderPath'' = Inr (JStr ''/ui'')"
    "getProp ?req ''includeStorybooks'' = Inr JUndefined"
    "getProp ?req ''includeTests'' = Inr JUndefined"
    "getProp ?req ''recursive'' = Inr JUndefined"
    by simp_all
  have d: "getProp ?data ''components_found'' = Inr (JNum 0)"
    "getProp ?data ''components'' = Inr (JArr [])"
    "getProp ?data ''errors'' = Inr (JStr ''boom'')"
    by simp_all
  have a: "serviceBoom (requests host0)
      \<lparr>reqMethod = POST, reqUrl = baseUrl ?c @ ''/api/scan'',
       reqBody = wire (pythonRequest (JStr ''/ui'') JUndefined JUndefined JUndefined)\<rparr>
      = Inr ?data"
    by (simp add: serviceBoom_def)
  have 1: "fst (scanFolder serviceBoom ?c ?req host0) =
     Inr (JObj [(''componentsFound'', JNum 0), (''components'', JArr []),
                (''errors'', JStr ''boom'')])"
    unfolding scanFolder_result[where srv = serviceBoom and h = host0 and c = ?c, OF r a d]
    by simp
  let ?req' = "JObj [(''folder_path'', JStr ''/ui''), (''include_storybooks'', JBool True),
             (''include_tests'', JBool False), (''recursive'', JBool True)]"
  have r': "getProp ?req' ''folderPath'' = Inr JUndefined"
    "getProp ?req' ''includeStorybooks'' = Inr JUndefined"
    "getProp ?req' ''includeTests'' = Inr JUndefined"
    "getProp ?req' ''recursive'' = Inr (JBool True)"
    by simp_all
  have 2: "requests (snd (scanFolder serviceUp ?c ?req' host0)) =
     [\<lparr>reqMethod = POST, reqUrl = ''http://localhost:8765/api/scan'',
       reqBody = JObj [(''include_storybooks'', JBool True),
                       (''include_tests'', JBool False), (''recursive'', JBool True)]\<rparr>]"
    unfolding scanFolder_sent[OF r'] wire_pythonRequest by (simp add: host0_def)
  from 1 2 show ?thesis by (rule conjI)
qed

text \<open>
  C6, amended. For a request object with fields \<open>folderPath\<close>, \<open>includeStorybooks\<close>,
  \<open>includeTests\<close> and \<open>recursive\<close> (any of them possibly absent), \<open>scanFolder\<close> sends
  one request, a \<open>POST\<close> to \<open>/api/scan\<close>. Its body holds \<open>include_storybooks\<close>,
  \<open>include_tests\<close> and \<open>recursive\<close>, where an absent or \<open>null\<close> flag is replaced by
  \<open>true\<close>, \<open>false\<close> and \<open>true\<close>; it holds \<open>folder_path\<close>, before them, exactly when
  \<open>request.folderPath\<close> is not \<open>undefined\<close>. When the service answers with data, the
  result is \<open>{componentsFound, components, errors}\<close> taken from \<open>components_found\<close>,
  \<open>components\<close> and \<open>errors\<close> of the answer, where \<open>errors\<close> is the answer's \<open>errors\<close>
  when that is truthy (an array is, also the empty one; so is a non-empty string)
  and the empty array otherwise (no \<open>errors\<close>, \<open>null\<close>, \<open>false\<close>, \<open>0\<close>, \<open>""\<close>).
\<close>

theorem scanFolder_contract:
  "getProp request ''folderPath'' = Inr fp \<longrightarrow>
   getProp request ''includeStorybooks'' = Inr sb \<longrightarrow>
   getProp request ''includeTests'' = Inr te \<longrightarrow>
   getProp request ''recursive'' = Inr rc \<longrightarrow>
   (let sent = \<lparr>reqMethod = POST, reqUrl = baseUrl c @ ''/api/scan'',
                 reqBody = JObj
                   ((if fp = JUndefined then [] else [(''folder_path'', wire fp)]) @
                    [(''include_storybooks'',
                        wire (if sb = JUndefined \<or> sb = JNull then JBool True else sb)),
                     (''include_tests'',
                        wire (if te = JUndefined \<or> te = JNull then JBool False else te)),
                     (''recursive'',
                        wire (if rc = JUndefined \<or> rc = JNull then JBool True else rc))])\<rparr>
    in requests (snd (scanFolder srv c request h)) = requests h @ [sent] \<and>
       (srv (requests h) sent = Inr data \<longrightarrow>
        getProp data ''components_found'' = Inr n \<longrightarrow>
        getProp data ''components'' = Inr cs \<longrightarrow>
        getProp data ''errors'' = Inr es \<longrightarrow>
        fst (scanFolder srv c request h) =
          Inr (JObj [(''componentsFound'', n), (''components'', cs),
                     (''errors'', if truthy es then es else JArr [])])))"
  unfolding Let_def wire_pythonRequest[symmetric]
proof (intro impI conjI)
  assume r: "getProp request ''folderPath'' = Inr fp"
    "getProp request ''includeStorybooks'' = Inr sb"
    "getProp request ''includeTests'' = Inr te"
    "getProp request ''recursive'' = Inr rc"
  show "requests (snd (scanFolder srv c request h)) =
    requests h @ [\<lparr>reqMethod = POST, reqUrl = baseUrl c @ ''/api/scan'',
                   reqBody = wire (pythonRequest fp sb te rc)\<rparr>]"
    unfolding scanFolder_sent[OF r] by simp
  assume "srv (requests h) \<lparr>reqMethod = POST, reqUrl = baseUrl c @ ''/api/scan'',
                   reqBody = wire (pythonRequest fp sb te rc)\<rparr> = Inr data"
    "getProp data ''components_found'' = Inr n"
    "getProp data ''components'' = Inr cs"
    "getProp data ''errors'' = Inr es"
  then show "fst (scanFolder srv c request h) =
         Inr (JObj [(''componentsFound'', n), (''components'', cs),
                    (''errors'', if truthy es then es else JArr [])])"
    by (rule scanFolder_result[OF r])
qed

theorem scanFolder_contract_witness:
  "requests (snd (scanFolder serviceUp \<lparr>baseUrl = ''http://localhost:8765''\<rparr>
      (JObj [(''folderPath'', JStr ''/ui'')]) host0)) =
     [\<lparr>reqMethod = POST, reqUrl = ''http://localhost:8765/api/scan'',
       reqBody = JObj [(''folder_path'', JStr ''/ui''), (''include_storybooks'', JBool True),
                       (''include_tests'', JBool False), (''recursive'', JBool True)]\<rparr>] \<and>
   fst (scanFolder serviceUp \<lparr>baseUrl = ''http://localhost:8765''\<rparr>
      (JObj [(''folderPath'', JStr ''/ui'')]) host0) =
     Inr (JObj [(''componentsFound'', JNum 2),
                (''components'', JArr [buttonComponent, cardComponent]),
                (''errors'', JArr [])])"
proof -
  let ?req = "JObj [(''folderPath'', JStr ''/ui'')]"
  let ?data = "JObj [(''components_found'', JNum 2),
                     (''components'', JArr [buttonComponent, cardComponent])]"
  have r: "getProp ?req ''folderPath'' = Inr (JStr ''/ui'')"
    "getProp ?req ''includeStorybooks'' = Inr JUndefined"
    "getProp ?req ''includeTests'' = Inr JUndefined"
    "getProp ?req ''recursive'' = Inr JUndefined"
    by simp_all
  have d: "getProp ?data ''components_found'' = Inr (JNum 2)"
    "getProp ?data ''components'' = Inr (JArr [buttonComponent, cardComponent])"
    "getProp ?data ''errors'' = Inr JUndefined"
    by simp_all
  have a: "serviceUp (requests host0)
      \<lparr>reqMethod = POST, reqUrl = baseUrl \<lparr>baseUrl = ''http://localhost:8765''\<rparr> @ ''/api/scan'',
       reqBody = JObj
         ((if JStr ''/ui'' = JUndefined then [] else [(''folder_path'', wire (JStr ''/ui''))]) @
          [(''include_storybooks'',
              wire (if JUndefined = JUndefined \<or> JUndefined = JNull then JBool True
                    else JUndefined)),
           (''include_tests'',
              wire (if JUndefined = JUndefined \<or> JUndefined = JNull then JBool False
                    else JUndefined)),
           (''recursive'',
              wire (if JUndefined = JUndefined \<or> JUndefined = JNull then JBool True
                    else JUndefined))])\<rparr>
      = Inr ?data"
    by (simp add: serviceUp_def)
  note inst = scanFolder_contract[of ?req "JStr ''/ui''" JUndefined JUndefined JUndefined
      "\<lparr>baseUrl = ''http://localhost:8765''\<rparr>" serviceUp host0 ?data "JNum 2"
      "JArr [buttonComponent, cardComponent]" JUndefined,
      rule_format, OF r, unfolded Let_def]
  from inst[THEN conjunct1]
  have 1: "requests (snd (scanFolder serviceUp \<lparr>baseUrl = ''http://localhost:8765''\<rparr> ?req host0)) =
     [\<lparr>reqMethod = POST, reqUrl = ''http://localhost:8765/api/scan'',
       reqBody = JObj [(''folder_path'', JStr ''/ui''), (''include_storybooks'', JBool True),
                       (''include_tests'', JBool False), (''recursive'', JBool True)]\<rparr>]"
    by (simp add: host0_def)
  from inst[THEN conjunct2, rule_format, OF a d]
  have 2: "fst (scanFolder serviceUp \<lparr>baseUrl = ''http://localhost:8765''\<rparr> ?req host0) =
     Inr (JObj [(''componentsFound'', JNum 2),
                (''components'', JArr [buttonComponent, cardComponent]),
                (''errors'', JArr [])])"
    by simp
  from 1 2 show ?thesis by (rule conjI)
qed


section \<open>Field names on the two sides of the client\<close>

text \<open>
  C1. \<open>scanFolder\<close> reads the camel-case fields of its request and returns a
  camel-case result, but its two callers hand it snake-case fields and read
  \<open>components_found\<close> from what it returns. Here the scan tool is called with
  \<open>{folderPath: "/ui", includeStorybooks: false}\<close> against a service that finds two
  components: the folder path never reaches the wire, the caller's \<open>false\<close> is sent
  as \<open>true\<close>, the tool reports \<open>componentsFound\<close> as \<open>undefined\<close>, and the command of
  \<open>extension.ts\<close> tells the user that \<open>undefined\<close> components were scanned. The
  search tool, for its part, reads \<open>import_path\<close> from a search result, so a
  component shaped as the shared type \<open>Component\<close> declares it (\<open>importPath\<close>) loses
  its import path.
\<close>

theorem scan_callers_use_snake_case:
  "scanComponentFolderTool serviceUp None
     (JObj [(''folderPath'', JStr ''/ui''), (''includeStorybooks'', JBool False)]) host0 =
     (Inr (JObj [(''success'', JBool True), (''componentsFound'', JUndefined),
                 (''components'', JArr [JStr ''Button'', JStr ''Card'']), (''errors'', JArr [])]),
      (withClient None host0)
        \<lparr>requests := [\<lparr>reqMethod = POST, reqUrl = ''http://localhost:8765/api/scan'',
                        reqBody = JObj [(''include_storybooks'', JBool True),
                                        (''include_tests'', JBool False),
                                        (''recursive'', JBool True)]\<rparr>]\<rparr>) \<and>
   notices (snd (scanFolderCommand serviceUp None ''/ui'' host0)) =
     [InformationMessage ''Scanned undefined components''] \<and>
   searchHit (JObj [(''component'',
                     JObj [(''id'', JStr ''c1''), (''name'', JStr ''Button''),
                           (''description'', JStr ''A clickable button''),
                           (''filePath'', JStr ''/ui/Button.tsx''),
                           (''importPath'', JStr ''@ui/button''),
                           (''props'', JArr []), (''examples'', JArr [])]),
                    (''score'', JNum 1), (''matchedFields'', JArr [])]) =
     Inr (JObj [(''name'', JStr ''Button''), (''description'', JStr ''A clickable button''),
                (''importPath'', JUndefined), (''props'', JArr []), (''score'', JNum 1)])"
proof (intro conjI)
  show "scanComponentFolderTool serviceUp None
     (JObj [(''folderPath'', JStr ''/ui''), (''includeStorybooks'', JBool False)]) host0 =
     (Inr (JObj [(''success'', JBool True), (''componentsFound'', JUndefined),
                 (''components'', JArr [JStr ''Button'', JStr ''Card'']), (''errors'', JArr [])]),
      (withClient None host0)
        \<lparr>requests := [\<lparr>reqMethod = POST, reqUrl = ''http://localhost:8765/api/scan'',
                        reqBody = JObj [(''include_storybooks'', JBool True),
                                        (''include_tests'', JBool False),
                                        (''recursive'', JBool True)]\<rparr>]\<rparr>)"
    unfolding scanComponentFolderTool_run theClient_host0 withClient_host0
    by (simp add: scanToolTry_def scanFolder_def pythonRequest_def tryCatch_def bind_def lift_def
          ret_def axios_def nullishOr_def nullish_def logicalOr_def serviceUp_def host0_def
          buttonComponent_def cardComponent_def)
  show "notices (snd (scanFolderCommand serviceUp None ''/ui'' host0)) =
     [InformationMessage ''Scanned undefined components'']"
    by (simp add: scanFolderCommand_def scanFolder_def pythonRequest_def tryCatch_def bind_def
          lift_def ret_def axios_def nullishOr_def nullish_def logicalOr_def serviceUp_def
          host0_def showInformationMessage_def loadComponents_def getRAGClient_def port_8765
          getAllComponents_def throw_def postMessage_def Let_def)
  show "searchHit (JObj [(''component'',
                     JObj [(''id'', JStr ''c1''), (''name'', JStr ''Button''),
                           (''description'', JStr ''A clickable button''),
                           (''filePath'', JStr ''/ui/Button.tsx''),
                           (''importPath'', JStr ''@ui/button''),
                           (''props'', JArr []), (''examples'', JArr [])]),
                    (''score'', JNum 1), (''matchedFields'', JArr [])]) =
     Inr (JObj [(''name'', JStr ''Button''), (''description'', JStr ''A clickable button''),
                (''importPath'', JUndefined), (''props'', JArr []), (''score'', JNum 1)])"
    by (simp add: searchHit_def bindE_def)
qed

section \<open>Who owns the client\<close>

lemma port_9000: "newRAGClient 9000 = \<lparr>baseUrl = ''http://localhost:9000''\<rparr>"
  by (simp add: newRAGClient_def showInt_def showNat.simps digitChar_def)

text \<open>
  C7, as stated, fails. The client is the module variable \<open>ragClient\<close>: a handler
  is given no client and asks \<open>getRAGClient\<close> for it, so the same tool call with the
  same arguments (here with port 9000 configured) goes to port 8765 when an earlier
  call has left a client for 8765 in the variable, and to port 9000 when the
  variable is empty.
\<close>

theorem client_is_module_state_counterexample:
  "ragClient (snd (getRAGClient None host0)) = Some \<lparr>baseUrl = ''http://localhost:8765''\<rparr> \<and>
   fst (getRAGClient (Some 9000) (snd (getRAGClient None host0))) =
     Inr \<lparr>baseUrl = ''http://localhost:8765''\<rparr> \<and>
   map reqUrl (requests (snd (searchComponentsTool serviceDown (Some 9000)
      (JObj [(''query'', JStr ''button'')]) (snd (getRAGClient None host0))))) =
     [''http://localhost:8765/api/search''] \<and>
   map reqUrl (requests (snd (searchComponentsTool serviceDown (Some 9000)
      (JObj [(''query'', JStr ''button'')]) host0))) =
     [''http://localhost:9000/api/search'']"
proof -
  have g: "snd (getRAGClient None host0) =
      host0\<lparr>ragClient := Some \<lparr>baseUrl = ''http://localhost:8765''\<rparr>\<rparr>"
    by (simp add: getRAGClient_run withClient_host0)
  have c1: "theClient (Some 9000) (host0\<lparr>ragClient := Some \<lparr>baseUrl = ''http://localhost:8765''\<rparr>\<rparr>)
      = \<lparr>baseUrl = ''http://localhost:8765''\<rparr>"
    by (simp add: theClient_def)
  have c2: "theClient (Some 9000) host0 = \<lparr>baseUrl = ''http://localhost:9000''\<rparr>"
    by (simp add: theClient_def host0_def port_9000)
  have p: "getProp (JObj [(''query'', JStr ''button'')]) ''query'' = Inr (JStr ''button'')"
    "getProp (JObj [(''query'', JStr ''button'')]) ''limit'' = Inr JUndefined"
    by simp_all
  have rq: "requests (snd (searchComponentsTool serviceDown cfg (JObj [(''query'', JStr ''button'')]) h)) =
      requests h @ [\<lparr>reqMethod = POST, reqUrl = baseUrl (theClient cfg h) @ ''/api/search'',
        reqBody = wire (JObj [(''query'', JStr ''button''), (''limit'', JNum 10)])\<rparr>]" for cfg h
    using p
    by (simp add: searchComponentsTool_run snd_case_result searchToolTry_def bind_lift_Inr
          requests_after_lifts searchComponents_requests logicalOr_def withClient_fields)
  have 1: "ragClient (snd (getRAGClient None host0)) = Some \<lparr>baseUrl = ''http://localhost:8765''\<rparr>"
    unfolding g by simp
  have 2: "fst (getRAGClient (Some 9000) (snd (getRAGClient None host0))) =
     Inr \<lparr>baseUrl = ''http://localhost:8765''\<rparr>"
    unfolding g by (simp add: getRAGClient_run c1)
  have 3: "map reqUrl (requests (snd (searchComponentsTool serviceDown (Some 9000)
      (JObj [(''query'', JStr ''button'')]) (snd (getRAGClient None host0))))) =
     [''http://localhost:8765/api/search'']"
    unfolding g rq c1 by (simp add: host0_def)
  have 4: "map reqUrl (requests (snd (searchComponentsTool serviceDown (Some 9000)
      (JObj [(''query'', JStr ''button'')]) host0))) =
     [''http://localhost:9000/api/search'']"
    unfolding rq c2 by (simp add: host0_def)
  from 1 2 3 4 show ?thesis by (intro conjI)
qed

text \<open>
  C7, amended. \<open>getRAGClient\<close> creates the client on first use, for the configured
  port or 8765, keeps it in the module variable and hands out that same client on
  every later call, whatever the configuration then says, until \<open>resetRAGClient\<close>
  empties the variable. It sends nothing. A handler gets its client by this call.
\<close>

theorem client_is_lazy_singleton:
  "getRAGClient cfg h = (Inr c, h') \<Longrightarrow>
     ragClient h' = Some c \<and>
     getRAGClient cfg' h' = (Inr c, h') \<and>
     (ragClient h = None \<longrightarrow> c = newRAGClient (case cfg of None \<Rightarrow> 8765 | Some p \<Rightarrow> p)) \<and>
     (ragClient h = Some c0 \<longrightarrow> c = c0 \<and> h' = h) \<and>
     requests h' = requests h \<and>
     ragClient (snd (resetRAGClient h')) = None \<and>
     searchComponentsTool srv cfg parameters h =
       tryCatch (searchToolTry srv c parameters)
         (\<lambda>error. ret (failure ''Failed to search components: '' error)) h'"
  by (cases "ragClient h")
     (auto simp: getRAGClient_def Let_def resetRAGClient_def searchComponentsTool_def bind_def)

theorem client_is_lazy_singleton_witness:
  "ragClient (host0\<lparr>ragClient := Some \<lparr>baseUrl = ''http://localhost:8765''\<rparr>\<rparr>) =
     Some \<lparr>baseUrl = ''http://localhost:8765''\<rparr> \<and>
   \<lparr>baseUrl = ''http://localhost:8765''\<rparr> = newRAGClient 8765 \<and>
   getRAGClient (Some 9000) (host0\<lparr>ragClient := Some \<lparr>baseUrl = ''http://localhost:8765''\<rparr>\<rparr>) =
     (Inr \<lparr>baseUrl = ''http://localhost:8765''\<rparr>,
      host0\<lparr>ragClient := Some \<lparr>baseUrl = ''http://localhost:8765''\<rparr>\<rparr>)"
proof -
  have g: "getRAGClient None host0 =
      (Inr \<lparr>baseUrl = ''http://localhost:8765''\<rparr>,
       host0\<lparr>ragClient := Some \<lparr>baseUrl = ''http://localhost:8765''\<rparr>\<rparr>)"
    by (simp add: getRAGClient_run theClient_host0 withClient_host0)
  have n: "ragClient host0 = None" by (simp add: host0_def)
  note t = client_is_lazy_singleton[OF g, of "Some 9000"]
  from t have 1: "ragClient (host0\<lparr>ragClient := Some \<lparr>baseUrl = ''http://localhost:8765''\<rparr>\<rparr>) =
     Some \<lparr>baseUrl = ''http://localhost:8765''\<rparr>"
    by blast
  from t n have 2: "\<lparr>baseUrl = ''http://localhost:8765''\<rparr> = newRAGClient 8765"
    by fastforce
  from t have 3: "getRAGClient (Some 9000)
      (host0\<lparr>ragClient := Some \<lparr>baseUrl = ''http://localhost:8765''\<rparr>\<rparr>) =
     (Inr \<lparr>baseUrl = ''http://localhost:8765''\<rparr>,
      host0\<lparr>ragClient := Some \<lparr>baseUrl = ''http://localhost:8765''\<rparr>\<rparr>)"
    by blast
  from 1 2 3 show ?thesis by (intro conjI)
qed

section \<open>Deleting a component in the sidebar\<close>

lemma getProp_propOf: "\<not> nullish v \<Longrightarrow> getProp v k = Inr (propOf v k)"
  by (cases v) (simp_all add: nullish_def propOf_def)

lemma filterE_ids:
  "\<forall>c \<in> set cs. \<not> nullish c \<Longrightarrow>
   filterE (\<lambda>c. bindE (getProp c ''id'') (\<lambda>i. Inr (\<not> strictEq i X))) cs =
     Inr (filter (\<lambda>c. \<not> strictEq (propOf c ''id'') X) cs)"
  by (induction cs) (simp_all add: getProp_propOf bindE_def)

lemma mapE_renderItem:
  "\<forall>c \<in> set cs. \<not> nullish c \<Longrightarrow> mapE renderItem cs = Inr cs"
  by (induction cs) (simp_all add: renderItem_def getProp_propOf bindE_def)

lemma renderComponents_run:
  assumes "\<forall>c \<in> set cs. \<not> nullish c"
  shows "renderComponents (JArr cs) w = (Inr (), w\<lparr>shown := cs, emptyState := (cs = [])\<rparr>)"
proof (cases cs)
  case Nil
  then show ?thesis
    by (simp add: renderComponents_def bind_lift_Inr setW_def)
next
  case (Cons a list)
  from assms have "mapE renderItem cs = Inr cs" by (rule mapE_renderItem)
  with Cons show ?thesis
    by (simp add: renderComponents_def bind_lift_Inr setW_def bind_def)
qed

text \<open>
  C10. When the page receives \<open>componentDeleted\<close> for id \<open>X\<close> while its list
  \<open>allComponents\<close> is the array \<open>cs\<close> of components, the list becomes, and the page
  shows, exactly the elements of \<open>cs\<close> whose \<open>id\<close> is not \<open>X\<close>, in their order and as
  they were. Nothing else of the page changes but the empty-state marker.
\<close>

theorem componentDeleted_keeps_the_others:
  assumes "getProp message ''type'' = Inr (JStr ''componentDeleted'')"
    and "getProp message ''componentId'' = Inr X"
    and "allComponents w = JArr cs"
    and "\<forall>c \<in> set cs. \<not> nullish c"
  shows "onMessage message w =
     (Inr (),
      w\<lparr>allComponents := JArr (filter (\<lambda>c. \<not> strictEq (propOf c ''id'') X) cs),
        shown := filter (\<lambda>c. \<not> strictEq (propOf c ''id'') X) cs,
        emptyState := (filter (\<lambda>c. \<not> strictEq (propOf c ''id'') X) cs = [])\<rparr>)"
proof -
  let ?kept = "filter (\<lambda>c. \<not> strictEq (propOf c ''id'') X) cs"
  have k: "\<forall>c \<in> set ?kept. \<not> nullish c" using assms(4) by simp
  have f: "arrayFilter (allComponents w)
      (\<lambda>c. bindE (getProp c ''id'') (\<lambda>i. Inr (\<not> strictEq i X))) = Inr (JArr ?kept)"
    by (simp add: assms(3) filterE_ids[OF assms(4)])
  show ?thesis
    unfolding onMessage_def assms(1) bind_lift_Inr
    by (simp add: assms(2) f bind_lift_Inr bind_def lift_def setW_def renderComponents_run[OF k])
qed

theorem componentDeleted_keeps_the_others_witness:
  "onMessage (JObj [(''type'', JStr ''componentDeleted''), (''componentId'', JStr ''c1'')]) page0 =
     (Inr (), page0\<lparr>allComponents := JArr [cardComponent], shown := [cardComponent]\<rparr>)"
proof -
  let ?m = "JObj [(''type'', JStr ''componentDeleted''), (''componentId'', JStr ''c1'')]"
  have a: "getProp ?m ''type'' = Inr (JStr ''componentDeleted'')"
    "getProp ?m ''componentId'' = Inr (JStr ''c1'')"
    "allComponents page0 = JArr [buttonComponent, cardComponent]"
    "\<forall>c \<in> set [buttonComponent, cardComponent]. \<not> nullish c"
    by (simp_all add: page0_def nullish_def buttonComponent_def cardComponent_def)
  have k: "filter (\<lambda>c. \<not> strictEq (propOf c ''id'') (JStr ''c1'')) [buttonComponent, cardComponent]
      = [cardComponent]"
    by (simp add: propOf_def buttonComponent_def cardComponent_def)
  show ?thesis
    using componentDeleted_keeps_the_others[OF a] unfolding k
    by (simp add: page0_def)
qed

end
